theory Spec2Isabelle
  imports Complex_Main
begin

section \<open>Python control flow: effects, exceptions, loops\<close>

text \<open>
  A Python statement sequence runs in a world (the state of the random generator, the
  clock, standard output, ...) and either returns a value or raises. An exception leaves
  the effects made so far in place, so the world is returned in both cases.
  \<open>Inl e\<close> is a raised exception \<open>e\<close>.
\<close>

type_synonym ('w, 'e, 'a) prog = "'w \<Rightarrow> ('e + 'a) \<times> 'w"

definition ret :: "'a \<Rightarrow> ('w, 'e, 'a) prog" where
  "ret x = (\<lambda>w. (Inr x, w))"

text \<open>\<open>then_do m f\<close>: run \<open>m\<close>; when it raises, the rest is skipped and the exception
  goes on to the caller; otherwise go on with \<open>f\<close> on its value.\<close>

definition then_do :: "('w, 'e, 'a) prog \<Rightarrow> ('a \<Rightarrow> ('w, 'e, 'b) prog) \<Rightarrow> ('w, 'e, 'b) prog" where
  "then_do m f = (\<lambda>w. case m w of (Inl e, w') \<Rightarrow> (Inl e, w') | (Inr x, w') \<Rightarrow> f x w')"

text \<open>\<open>for x in xs: body\<close>, the variables the body assigns passed along as \<open>s\<close>.\<close>

fun for_loop :: "'a list \<Rightarrow> ('a \<Rightarrow> 's \<Rightarrow> ('w, 'e, 's) prog) \<Rightarrow> 's \<Rightarrow> ('w, 'e, 's) prog" where
  "for_loop [] body s = ret s"
| "for_loop (x # xs) body s = then_do (body x s) (for_loop xs body)"

text \<open>\<open>range(n)\<close>: empty when \<open>n\<close> is not positive.\<close>

definition py_range :: "int \<Rightarrow> int list" where
  "py_range n = map int [0..<nat n]"

section \<open>Arrays\<close>

text \<open>
  A two-dimensional array (a NumPy or CuPy array, a Torch tensor): its shape and its rows. The shape is kept beside the rows
  because an array of shape \<open>(0, m)\<close> or \<open>(n, 0)\<close> still has one. Entries are real
  numbers: the rounding of float32 and float64 is not modelled.
\<close>

record 'a array2 =
  nrows :: nat
  ncols :: nat
  rows :: "'a list list"

type_synonym ndarray = "real array2"

definition valid :: "'a array2 \<Rightarrow> bool" where
  "valid A = (length (rows A) = nrows A \<and> list_all (\<lambda>r. length r = ncols A) (rows A))"

definition same_shape :: "'a array2 \<Rightarrow> 'b array2 \<Rightarrow> bool" where
  "same_shape A B = (nrows A = nrows B \<and> ncols A = ncols B)"

definition map_entries :: "('a \<Rightarrow> 'b) \<Rightarrow> 'a array2 \<Rightarrow> 'b array2" where
  "map_entries f A = \<lparr>nrows = nrows A, ncols = ncols A, rows = map (map f) (rows A)\<rparr>"

definition column :: "'a array2 \<Rightarrow> nat \<Rightarrow> 'a list" where
  "column B j = map (\<lambda>r. r ! j) (rows B)"

definition columns :: "'a array2 \<Rightarrow> 'a list list" where
  "columns B = map (column B) [0..<ncols B]"

definition dot_entry :: "real list \<Rightarrow> real list \<Rightarrow> real" where
  "dot_entry r c = sum_list (map2 (*) r c)"

text \<open>The matrix product of an \<open>(n, m)\<close> and an \<open>(m, c)\<close> array.\<close>

definition matmul :: "ndarray \<Rightarrow> ndarray \<Rightarrow> ndarray" where
  "matmul A B =
     \<lparr>nrows = nrows A, ncols = ncols B,
      rows = map (\<lambda>r. map (dot_entry r) (columns B)) (rows A)\<rparr>"

text \<open>Joining arrays of equal row count side by side, and of equal column count one
  below the other.\<close>

definition hstack :: "ndarray list \<Rightarrow> ndarray" where
  "hstack As =
     \<lparr>nrows = nrows (hd As), ncols = sum_list (map ncols As),
      rows = map (\<lambda>i. concat (map (\<lambda>A. rows A ! i) As)) [0..<nrows (hd As)]\<rparr>"

definition vstack :: "ndarray list \<Rightarrow> ndarray" where
  "vstack As =
     \<lparr>nrows = sum_list (map nrows As), ncols = ncols (hd As),
      rows = concat (map rows As)\<rparr>"

text \<open>Broadcasting of an array to a shape: an axis of length 1 is repeated.\<close>

definition stretch :: "nat \<Rightarrow> 'a list \<Rightarrow> 'a list" where
  "stretch n xs = (if length xs = n then xs else replicate n (hd xs))"

definition broadcastable :: "nat \<times> nat \<Rightarrow> 'a array2 \<Rightarrow> bool" where
  "broadcastable sh A =
     ((nrows A = fst sh \<or> nrows A = 1) \<and> (ncols A = snd sh \<or> ncols A = 1))"

definition broadcast_to :: "nat \<times> nat \<Rightarrow> 'a array2 \<Rightarrow> 'a array2" where
  "broadcast_to sh A =
     \<lparr>nrows = fst sh, ncols = snd sh,
      rows = map (stretch (snd sh)) (stretch (fst sh) (rows A))\<rparr>"

section \<open>The libraries the notebooks call\<close>

text \<open>
  The notebook functions call NumPy, CuPy, Torch, the vendor's SDK and the Python runtime.
  Each call is a field of a record: a computation that may raise. The functions of the
  repository are written once, over any such library. \<open>time\<close> is the clock every notebook
  imports; \<open>pylib\<close> holds the calls of the GPU projection cells.
\<close>

record ('w, 'e) stdlib =
  time :: "('w, 'e, real) prog"

record ('w, 'e) pylib = "('w, 'e) stdlib" +
  py_floordiv :: "int \<Rightarrow> int \<Rightarrow> ('w, 'e, int) prog"
  print :: "string \<Rightarrow> int \<Rightarrow> ('w, 'e, unit) prog"
  np_zeros :: "int \<times> int \<Rightarrow> ('w, 'e, ndarray) prog"
  np_random_randn :: "int \<Rightarrow> int \<Rightarrow> ('w, 'e, ndarray) prog"
  setitem_all :: "ndarray \<Rightarrow> ndarray \<Rightarrow> ('w, 'e, ndarray) prog"
  np_sqrt :: "int \<Rightarrow> ('w, 'e, real) prog"
  itruediv :: "ndarray \<Rightarrow> real \<Rightarrow> ('w, 'e, ndarray) prog"
  cp_asarray :: "ndarray \<Rightarrow> ('w, 'e, ndarray) prog"
  cp_dot :: "ndarray \<Rightarrow> ndarray \<Rightarrow> ('w, 'e, ndarray) prog"
  cp_abs :: "ndarray \<Rightarrow> ('w, 'e, ndarray) prog"
  cp_pow :: "ndarray \<Rightarrow> nat \<Rightarrow> ('w, 'e, ndarray) prog"
  cp_asnumpy :: "ndarray \<Rightarrow> ('w, 'e, ndarray) prog"
  cp_asnumpy_seq :: "ndarray list \<Rightarrow> ('w, 'e, ndarray list) prog"
  np_concatenate :: "ndarray list \<Rightarrow> nat \<Rightarrow> ('w, 'e, ndarray) prog"

section \<open>The GPU random projection\<close>

text \<open>
  \<^verbatim>\<open>
  def generate_RM(n_components, n_features, n_ram=10, normalize=True):
      matrix_shape = (n_features, n_components // n_ram)
      R = []
      since = time()
      for i in range(n_ram):
          print('Generating random matrix # ', i + 1)
          R_tmp = np.zeros(shape=matrix_shape, dtype='float32')
          R_tmp[:] = np.random.randn(*matrix_shape)
          if normalize is True:
              R_tmp /= np.sqrt(n_components)
          R.append(R_tmp)
      generation_time = time() - since
      return R, generation_time
  \<close>
\<close>

definition generate_RM_body ::
  "('w, 'e) pylib \<Rightarrow> int \<Rightarrow> int \<times> int \<Rightarrow> bool \<Rightarrow> int \<Rightarrow> ndarray list \<Rightarrow> ('w, 'e, ndarray list) prog" where
  "generate_RM_body L n_components matrix_shape do_normalize i R =
     then_do (print L ''Generating random matrix # '' (i + 1)) (\<lambda>_.
     then_do (np_zeros L matrix_shape) (\<lambda>R_tmp.
     then_do (np_random_randn L (fst matrix_shape) (snd matrix_shape)) (\<lambda>drawn.
     then_do (setitem_all L R_tmp drawn) (\<lambda>R_tmp.
     then_do (if do_normalize
              then then_do (np_sqrt L n_components) (\<lambda>s. itruediv L R_tmp s)
              else ret R_tmp) (\<lambda>R_tmp.
     ret (R @ [R_tmp]))))))"

definition generate_RM ::
  "('w, 'e) pylib \<Rightarrow> int \<Rightarrow> int \<Rightarrow> int \<Rightarrow> bool \<Rightarrow> ('w, 'e, ndarray list \<times> real) prog" where
  "generate_RM L n_components n_features n_ram do_normalize =
     then_do (py_floordiv L n_components n_ram) (\<lambda>q.
     then_do (time L) (\<lambda>since.
     then_do (for_loop (py_range n_ram)
                (generate_RM_body L n_components (n_features, q) do_normalize) []) (\<lambda>R.
     then_do (time L) (\<lambda>now.
     ret (R, now - since)))))"

text \<open>
  \<^verbatim>\<open>
  def compute_dot_split(x, random_matrix):
      rm = cp.asarray(random_matrix)
      output = cp.asnumpy(cp.abs(cp.dot(x, rm))**2)
      return output
  \<close>
\<close>

definition compute_dot_split ::
  "('w, 'e) pylib \<Rightarrow> ndarray \<Rightarrow> ndarray \<Rightarrow> ('w, 'e, ndarray) prog" where
  "compute_dot_split L x random_matrix =
     then_do (cp_asarray L random_matrix) (\<lambda>rm.
     then_do (cp_dot L x rm) (\<lambda>d.
     then_do (cp_abs L d) (\<lambda>a.
     then_do (cp_pow L a 2) (\<lambda>p.
     then_do (cp_asnumpy L p) (\<lambda>output.
     ret output)))))"

text \<open>
  \<^verbatim>\<open>
  def get_rand_features_GPU(R, X):
      random_features = []
      X = cp.asarray(X)
      t0 = time()
      for matrix in R:
          random_features.append(compute_dot_split(X, matrix))
      random_features = cp.asnumpy(random_features)
      random_features = np.concatenate(random_features, axis=1)
      proj_time = time() - t0
      return random_features, proj_time
  \<close>
\<close>

definition get_rand_features_GPU ::
  "('w, 'e) pylib \<Rightarrow> ndarray list \<Rightarrow> ndarray \<Rightarrow> ('w, 'e, ndarray \<times> real) prog" where
  "get_rand_features_GPU L R X =
     then_do (cp_asarray L X) (\<lambda>X.
     then_do (time L) (\<lambda>t0.
     then_do (for_loop R
                (\<lambda>matrix random_features.
                   then_do (compute_dot_split L X matrix) (\<lambda>out.
                   ret (random_features @ [out]))) []) (\<lambda>random_features.
     then_do (cp_asnumpy_seq L random_features) (\<lambda>random_features.
     then_do (np_concatenate L random_features 1) (\<lambda>random_features.
     then_do (time L) (\<lambda>now.
     ret (random_features, now - t0)))))))"

text \<open>
  The notebook's cells: the blocks are generated once and the features projected through
  them.
  \<^verbatim>\<open>
  R, generation_time = generate_RM(n_components, output_size)
  train_random_features, train_proj_t = get_rand_features_GPU(R, train_conv_f)
  \<close>
\<close>

definition gpu_pipeline ::
  "('w, 'e) pylib \<Rightarrow> int \<Rightarrow> int \<Rightarrow> int \<Rightarrow> ndarray \<Rightarrow> ('w, 'e, ndarray \<times> real) prog" where
  "gpu_pipeline L n_components output_size n_ram train_conv_f =
     then_do (generate_RM L n_components output_size n_ram True) (\<lambda>(R, generation_time).
     get_rand_features_GPU L R train_conv_f)"

section \<open>NumPy and CuPy on real matrices\<close>

text \<open>
  The exceptions of the modelled library calls, and the world they act on: the stream of
  standard normal draws of NumPy's global generator with the number of draws used up, the
  successive readings of the clock with the number of readings made, and the lines
  printed.
\<close>

datatype exn = ValueError | ZeroDivisionError | RuntimeError | IndexError

record world =
  draws :: "nat \<Rightarrow> real"
  used :: nat
  clock :: "nat \<Rightarrow> real"
  reads :: nat
  stdout :: "(string \<times> int) list"

definition raise :: "'e \<Rightarrow> ('w, 'e, 'a) prog" where
  "raise e = (\<lambda>w. (Inl e, w))"

definition floordiv :: "int \<Rightarrow> int \<Rightarrow> (world, exn, int) prog" where
  "floordiv a b = (if b = 0 then raise ZeroDivisionError else ret (a div b))"

definition time_time :: "('a world_scheme, exn, real) prog" where
  "time_time = (\<lambda>w. (Inr (clock w (reads w)), w\<lparr>reads := Suc (reads w)\<rparr>))"

definition print_line :: "string \<Rightarrow> int \<Rightarrow> (world, exn, unit) prog" where
  "print_line s i = (\<lambda>w. (Inr (), w\<lparr>stdout := stdout w @ [(s, i)]\<rparr>))"

definition zeros :: "int \<times> int \<Rightarrow> (world, exn, ndarray) prog" where
  "zeros sh =
     (if fst sh < 0 \<or> snd sh < 0 then raise ValueError
      else ret \<lparr>nrows = nat (fst sh), ncols = nat (snd sh),
                rows = replicate (nat (fst sh)) (replicate (nat (snd sh)) 0)\<rparr>)"

text \<open>\<open>np.random.randn(r, c)\<close> fills an array row by row with the next \<open>r * c\<close> draws.\<close>

definition drawn_block :: "(nat \<Rightarrow> real) \<Rightarrow> nat \<Rightarrow> nat \<Rightarrow> nat \<Rightarrow> ndarray" where
  "drawn_block d u r c =
     \<lparr>nrows = r, ncols = c,
      rows = map (\<lambda>i. map (\<lambda>j. d (u + i * c + j)) [0..<c]) [0..<r]\<rparr>"

definition randn :: "int \<Rightarrow> int \<Rightarrow> (world, exn, ndarray) prog" where
  "randn r c =
     (if r < 0 \<or> c < 0 then raise ValueError
      else (\<lambda>w. (Inr (drawn_block (draws w) (used w) (nat r) (nat c)),
                  w\<lparr>used := used w + nat r * nat c\<rparr>)))"

text \<open>\<open>A[:] = B\<close>: the entries of \<open>B\<close>, broadcast to the shape of \<open>A\<close>.\<close>

definition assign_all :: "ndarray \<Rightarrow> ndarray \<Rightarrow> (world, exn, ndarray) prog" where
  "assign_all A B =
     (if broadcastable (nrows A, ncols A) B then ret (broadcast_to (nrows A, ncols A) B)
      else raise ValueError)"

text \<open>\<open>np.sqrt\<close> of an integer. Of a negative one NumPy gives nan with a warning, which a
  real number cannot hold; \<open>generate_RM\<close> does not get there, since \<open>np.zeros\<close> has raised
  on the negative shape before. Dividing by \<open>sqrt 0\<close> does not happen to an entry either: for
  \<open>n_components = 0\<close> the blocks have no column.\<close>

definition sqrt_int :: "int \<Rightarrow> (world, exn, real) prog" where
  "sqrt_int n = ret (sqrt (real_of_int n))"

definition divide_by :: "ndarray \<Rightarrow> real \<Rightarrow> (world, exn, ndarray) prog" where
  "divide_by A s = ret (map_entries (\<lambda>x. x / s) A)"

definition dot :: "ndarray \<Rightarrow> ndarray \<Rightarrow> (world, exn, ndarray) prog" where
  "dot A B = (if ncols A = nrows B then ret (matmul A B) else raise ValueError)"

text \<open>\<open>cp.asnumpy\<close> of a Python list of arrays is \<open>numpy.asarray\<close> of the list: one
  three-dimensional array when the shapes agree, an exception when they do not.\<close>

definition asnumpy_seq :: "ndarray list \<Rightarrow> (world, exn, ndarray list) prog" where
  "asnumpy_seq As =
     (if list_all (\<lambda>A. same_shape A (hd As)) As then ret As else raise ValueError)"

definition concatenate :: "ndarray list \<Rightarrow> nat \<Rightarrow> (world, exn, ndarray) prog" where
  "concatenate As axis =
     (if As = [] then raise ValueError
      else if axis = 0 then
        (if list_all (\<lambda>A. ncols A = ncols (hd As)) As then ret (vstack As) else raise ValueError)
      else if axis = 1 then
        (if list_all (\<lambda>A. nrows A = nrows (hd As)) As then ret (hstack As) else raise ValueError)
      else raise ValueError)"

definition numpy :: "(world, exn) pylib" where
  "numpy =
     \<lparr>time = time_time, py_floordiv = floordiv, print = print_line, np_zeros = zeros,
      np_random_randn = randn, setitem_all = assign_all, np_sqrt = sqrt_int,
      itruediv = divide_by, cp_asarray = ret, cp_dot = dot,
      cp_abs = (\<lambda>A. ret (map_entries abs A)),
      cp_pow = (\<lambda>A k. ret (map_entries (\<lambda>x. x ^ k) A)),
      cp_asnumpy = ret, cp_asnumpy_seq = asnumpy_seq, np_concatenate = concatenate\<rparr>"

section \<open>Notions the statements use\<close>

text \<open>The squared magnitude of every entry: what \<open>cp.abs(...)**2\<close> leaves of a product.\<close>

definition squared_abs :: "ndarray \<Rightarrow> ndarray" where
  "squared_abs A = map_entries (\<lambda>v. \<bar>v\<bar> ^ 2) A"

text \<open>The unsplit computation: the blocks joined into one random matrix along the column
  axis, and the projection applied once to the whole matrix.\<close>

definition project_unsplit ::
  "('w, 'e) pylib \<Rightarrow> ndarray list \<Rightarrow> ndarray \<Rightarrow> ('w, 'e, ndarray) prog" where
  "project_unsplit L R X =
     then_do (np_concatenate L R 1) (\<lambda>whole. compute_dot_split L X whole)"

text \<open>The \<open>k\<close>-th block \<open>generate_RM\<close> draws when it starts in world \<open>w\<close>: a block of shape
  \<open>(nf, q)\<close> takes \<open>nf * q\<close> draws, so the \<open>k\<close>-th one starts \<open>k * (nf * q)\<close> draws on.\<close>

definition normalized :: "bool \<Rightarrow> int \<Rightarrow> ndarray \<Rightarrow> ndarray" where
  "normalized b n A = (if b then map_entries (\<lambda>x. x / sqrt (real_of_int n)) A else A)"

definition block_at :: "world \<Rightarrow> bool \<Rightarrow> int \<Rightarrow> int \<Rightarrow> int \<Rightarrow> nat \<Rightarrow> ndarray" where
  "block_at w b nc nf q k =
     normalized b nc (drawn_block (draws w) (used w + k * (nat nf * nat q)) (nat nf) (nat q))"

text \<open>A world to run examples in: the generator delivers 1, 2, 3, ... and the clock reads
  0, 1, 2, ...\<close>

definition example_world :: world where
  "example_world =
     \<lparr>draws = (\<lambda>i. real i + 1), used = 0, clock = (\<lambda>i. real i), reads = 0, stdout = []\<rparr>"

text \<open>The shape of a returned array, when one is returned.\<close>

definition shape_of :: "'e + ndarray \<times> real \<Rightarrow> 'e + nat \<times> nat" where
  "shape_of r = map_sum id (\<lambda>(M, t). (nrows M, ncols M)) r"

text \<open>The data a call returns, without the time it measured.\<close>

definition data_of :: "('e + 'a \<times> real) \<times> 'w \<Rightarrow> 'e + 'a" where
  "data_of r = map_sum id fst (fst r)"

definition array :: "nat \<Rightarrow> nat \<Rightarrow> 'a list list \<Rightarrow> 'a array2" where
  "array n m rs = \<lparr>nrows = n, ncols = m, rows = rs\<rparr>"

section \<open>The double descent notebook\<close>

text \<open>\<open>with cm: body\<close>: the context is entered, the body runs, and the context is left
  whether the body raised or not; an exception of the body goes on to the caller once the
  context is left.\<close>

definition with_do ::
  "('w, 'e, unit) prog \<Rightarrow> ('w, 'e, unit) prog \<Rightarrow> ('w, 'e, 'a) prog \<Rightarrow> ('w, 'e, 'a) prog" where
  "with_do enter leave body =
     then_do enter (\<lambda>_ w.
       case body w of
         (Inl e, w') \<Rightarrow> (case leave w' of (Inl e', w'') \<Rightarrow> (Inl e', w'') | (Inr _, w'') \<Rightarrow> (Inl e, w''))
       | (Inr x, w') \<Rightarrow> (case leave w' of (Inl e', w'') \<Rightarrow> (Inl e', w'') | (Inr _, w'') \<Rightarrow> (Inr x, w'')))"

definition enumerate_from0 :: "'a list \<Rightarrow> (nat \<times> 'a) list" where
  "enumerate_from0 xs = zip [0..<length xs] xs"

text \<open>
  \<^verbatim>\<open>
  class Autoencoder(nn.Module):
      def forward(self, x):
          h = torch.tanh(self.beta * self.encoder(x)) / self.beta
          y = self.decoder(h)
          return y
      def encode(self, x):
          h = (torch.sign(self.encoder(x)) + 1) / 2
          return h
  \<close>
  The encoder and the decoder are convolution layers of Torch: functions from the input to
  the tensor of pre-activations, read entry by entry in storage order.
\<close>

text \<open>
  A float of a tensor: a number, an infinity or NaN. Rounding, overflow and the sign of zero
  are not modelled. The operations are those of IEEE arithmetic, and \<open>torch.sign\<close>, which
  is 0 at NaN.
\<close>

datatype fp = Finite real | PosInf | NegInf | NaN

fun fp_sign :: "fp \<Rightarrow> fp" where
  "fp_sign (Finite v) = Finite (sgn v)"
| "fp_sign PosInf = Finite 1"
| "fp_sign NegInf = Finite (- 1)"
| "fp_sign NaN = Finite 0"

fun fp_tanh :: "fp \<Rightarrow> fp" where
  "fp_tanh (Finite v) = Finite (tanh v)"
| "fp_tanh PosInf = Finite 1"
| "fp_tanh NegInf = Finite (- 1)"
| "fp_tanh NaN = NaN"

fun fp_neg :: "fp \<Rightarrow> fp" where
  "fp_neg (Finite v) = Finite (- v)"
| "fp_neg PosInf = NegInf"
| "fp_neg NegInf = PosInf"
| "fp_neg NaN = NaN"

fun fp_add :: "fp \<Rightarrow> fp \<Rightarrow> fp" where
  "fp_add (Finite a) (Finite b) = Finite (a + b)"
| "fp_add NaN _ = NaN"
| "fp_add _ NaN = NaN"
| "fp_add PosInf NegInf = NaN"
| "fp_add NegInf PosInf = NaN"
| "fp_add PosInf _ = PosInf"
| "fp_add NegInf _ = NegInf"
| "fp_add _ PosInf = PosInf"
| "fp_add _ NegInf = NegInf"

text \<open>An infinity of the sign of \<open>s\<close>, NaN when \<open>s\<close> is zero.\<close>

definition signed_inf :: "real \<Rightarrow> fp" where
  "signed_inf s = (if s = 0 then NaN else if 0 < s then PosInf else NegInf)"

fun fp_mul :: "fp \<Rightarrow> fp \<Rightarrow> fp" where
  "fp_mul (Finite a) (Finite b) = Finite (a * b)"
| "fp_mul NaN _ = NaN"
| "fp_mul _ NaN = NaN"
| "fp_mul PosInf (Finite b) = signed_inf b"
| "fp_mul NegInf (Finite b) = signed_inf (- b)"
| "fp_mul (Finite a) PosInf = signed_inf a"
| "fp_mul (Finite a) NegInf = signed_inf (- a)"
| "fp_mul PosInf PosInf = PosInf"
| "fp_mul NegInf NegInf = PosInf"
| "fp_mul PosInf NegInf = NegInf"
| "fp_mul NegInf PosInf = NegInf"

fun fp_div :: "fp \<Rightarrow> fp \<Rightarrow> fp" where
  "fp_div (Finite a) (Finite b) = (if b = 0 then signed_inf a else Finite (a / b))"
| "fp_div NaN _ = NaN"
| "fp_div _ NaN = NaN"
| "fp_div (Finite a) PosInf = Finite 0"
| "fp_div (Finite a) NegInf = Finite 0"
| "fp_div PosInf (Finite b) = (if 0 \<le> b then PosInf else NegInf)"
| "fp_div NegInf (Finite b) = (if 0 \<le> b then NegInf else PosInf)"
| "fp_div PosInf _ = NaN"
| "fp_div NegInf _ = NaN"

record 'x Autoencoder =
  encoder :: "'x \<Rightarrow> fp list"
  decoder :: "fp list \<Rightarrow> 'x"
  beta :: real

definition forward :: "'x Autoencoder \<Rightarrow> 'x \<Rightarrow> 'x" where
  "forward self x =
     (let h = map (\<lambda>v. fp_div (fp_tanh (fp_mul (Finite (beta self)) v)) (Finite (beta self)))
                (encoder self x);
          y = decoder self h
      in y)"

definition encode :: "'x Autoencoder \<Rightarrow> 'x \<Rightarrow> fp list" where
  "encode self x =
     (let h = map (\<lambda>v. fp_div (fp_add (fp_sign v) (Finite 1)) (Finite 2)) (encoder self x) in h)"

text \<open>A convolution with one weight and no bias, for examples: every entry of the input
  times the weight.\<close>

definition scaling :: "real \<Rightarrow> fp list \<Rightarrow> fp list" where
  "scaling weight x = map (fp_mul (Finite weight)) x"

text \<open>
  \<^verbatim>\<open>
  uniform_sampling = [500 * k for k in range(4, 41)]
  interpolation_point_sampling =  [9250, 9750, 10250, 10750]
  rps_list = sorted(uniform_sampling + interpolation_point_sampling)
  max_rps = max(rps_list)
  \<close>
\<close>

definition uniform_sampling :: "nat list" where
  "uniform_sampling = map (\<lambda>k. 500 * k) [4..<41]"

definition interpolation_point_sampling :: "nat list" where
  "interpolation_point_sampling = [9250, 9750, 10250, 10750]"

definition rps_list :: "nat list" where
  "rps_list = sort (uniform_sampling @ interpolation_point_sampling)"

text \<open>\<open>max\<close> of a list that is not empty.\<close>

definition max_rps :: nat where
  "max_rps = fold max (tl rps_list) (hd rps_list)"

text \<open>\<open>X[:, :rp]\<close>: the first \<open>rp\<close> columns.\<close>

definition cols_upto :: "nat \<Rightarrow> 'a array2 \<Rightarrow> 'a array2" where
  "cols_upto rp X = \<lparr>nrows = nrows X, ncols = min rp (ncols X), rows = map (take rp) (rows X)\<rparr>"

text \<open>The calls of the notebook into the vendor's SDK, Torch, NumPy and scikit-learn.\<close>

record ('w, 'e, 'opu, 'clf, 'y) sklib =
  OPU :: "nat \<Rightarrow> ('w, 'e, 'opu) prog"
  opu_enter :: "'opu \<Rightarrow> ('w, 'e, unit) prog"
  opu_exit :: "'opu \<Rightarrow> ('w, 'e, unit) prog"
  tensor_int :: "fp array2 \<Rightarrow> ('w, 'e, int array2) prog"
  transform1d :: "'opu \<Rightarrow> int array2 \<Rightarrow> ('w, 'e, ndarray) prog"
  np_zeros_1d :: "nat \<Rightarrow> ('w, 'e, real list) prog"
  RidgeClassifier :: "('w, 'e, 'clf) prog"
  fit :: "'clf \<Rightarrow> ndarray \<Rightarrow> 'y \<Rightarrow> ('w, 'e, 'clf) prog"
  score :: "'clf \<Rightarrow> ndarray \<Rightarrow> 'y \<Rightarrow> ('w, 'e, real) prog"

text \<open>
  \<^verbatim>\<open>
  opu = OPU(n_components=max_rps)
  with opu:
      X_train_rf = opu.transform1d(X_train_binary.int())
      X_test_rf = opu.transform1d(X_test_binary.int())

  train_accuracy = np.zeros(len(rps_list))
  test_accuracy = np.zeros(len(rps_list))
  for i, rp in enumerate(tqdm(rps_list)):
      clf = RidgeClassifier()
      clf.fit(X_train_rf[:,:rp], y_train)
      train_accuracy[i] = clf.score(X_train_rf[:,:rp], y_train)
      test_accuracy[i] = clf.score(X_test_rf[:,:rp], y_test)
  \<close>
  \<open>tqdm\<close> only draws a progress bar around the list it is given.
\<close>

definition double_descent_body ::
  "('w, 'e, 'opu, 'clf, 'y) sklib \<Rightarrow> ndarray \<Rightarrow> 'y \<Rightarrow> ndarray \<Rightarrow> 'y \<Rightarrow> nat \<times> nat \<Rightarrow>
     real list \<times> real list \<Rightarrow> ('w, 'e, real list \<times> real list) prog" where
  "double_descent_body L X_train_rf y_train X_test_rf y_test =
     (\<lambda>(i, rp) (train_accuracy, test_accuracy).
        then_do (RidgeClassifier L) (\<lambda>clf.
        then_do (fit L clf (cols_upto rp X_train_rf) y_train) (\<lambda>clf.
        then_do (score L clf (cols_upto rp X_train_rf) y_train) (\<lambda>train_score.
        then_do (score L clf (cols_upto rp X_test_rf) y_test) (\<lambda>test_score.
        ret (train_accuracy[i := train_score], test_accuracy[i := test_score]))))))"

definition double_descent ::
  "('w, 'e, 'opu, 'clf, 'y) sklib \<Rightarrow> fp array2 \<Rightarrow> 'y \<Rightarrow> fp array2 \<Rightarrow> 'y \<Rightarrow>
     ('w, 'e, real list \<times> real list) prog" where
  "double_descent L X_train_binary y_train X_test_binary y_test =
     then_do (OPU L max_rps) (\<lambda>opu.
     then_do (with_do (opu_enter L opu) (opu_exit L opu)
                (then_do (tensor_int L X_train_binary) (\<lambda>train_int.
                 then_do (transform1d L opu train_int) (\<lambda>X_train_rf.
                 then_do (tensor_int L X_test_binary) (\<lambda>test_int.
                 then_do (transform1d L opu test_int) (\<lambda>X_test_rf.
                 ret (X_train_rf, X_test_rf))))))) (\<lambda>(X_train_rf, X_test_rf).
     then_do (np_zeros_1d L (length rps_list)) (\<lambda>train_accuracy.
     then_do (np_zeros_1d L (length rps_list)) (\<lambda>test_accuracy.
     for_loop (enumerate_from0 rps_list)
       (double_descent_body L X_train_rf y_train X_test_rf y_test)
       (train_accuracy, test_accuracy)))))"

text \<open>
  A library that records what it is asked: the world is the list of the calls made so far.
  The device's answer, the fitted classifier and its score are parameters: the functions
  \<open>device\<close>, \<open>fitted\<close> and \<open>scored\<close>.
\<close>

datatype 'y call =
    Made_OPU nat
  | Entered
  | Left
  | Transformed "int array2"
  | Fitted ndarray 'y
  | Scored ndarray 'y

definition record_call :: "'c \<Rightarrow> 'a \<Rightarrow> ('c list, exn, 'a) prog" where
  "record_call c x = (\<lambda>calls. (Inr x, calls @ [c]))"

text \<open>\<open>.int()\<close> of a float tensor rounds toward zero, to a 32-bit integer. What does not
  fit (a number out of range, an infinity, NaN) becomes the least 32-bit integer, as the
  conversion of the processor leaves it.\<close>

definition to_int32 :: "fp \<Rightarrow> int" where
  "to_int32 v =
     (case v of
        Finite r \<Rightarrow>
          (let t = (if 0 \<le> r then \<lfloor>r\<rfloor> else \<lceil>r\<rceil>)
           in if - (2 ^ 31) \<le> t \<and> t < 2 ^ 31 then t else - (2 ^ 31))
      | _ \<Rightarrow> - (2 ^ 31))"

definition recording ::
  "(nat \<Rightarrow> int array2 \<Rightarrow> ndarray) \<Rightarrow> 'clf \<Rightarrow> ('clf \<Rightarrow> ndarray \<Rightarrow> 'y \<Rightarrow> 'clf) \<Rightarrow>
   ('clf \<Rightarrow> ndarray \<Rightarrow> 'y \<Rightarrow> real) \<Rightarrow> ('y call list, exn, nat, 'clf, 'y) sklib" where
  "recording device unfitted fitted scored =
     \<lparr>OPU = (\<lambda>n. record_call (Made_OPU n) n),
      opu_enter = (\<lambda>opu. record_call Entered ()),
      opu_exit = (\<lambda>opu. record_call Left ()),
      tensor_int = (\<lambda>A. ret (map_entries to_int32 A)),
      transform1d = (\<lambda>opu A. record_call (Transformed A) (device opu A)),
      np_zeros_1d = (\<lambda>n. ret (replicate n 0)),
      RidgeClassifier = ret unfitted,
      fit = (\<lambda>clf A y. record_call (Fitted A y) (fitted clf A y)),
      score = (\<lambda>clf A y. record_call (Scored A y) (scored clf A y))\<rparr>"

text \<open>The calls the loop makes for one model: a fit and a score on the training prefix, a
  score on the test prefix.\<close>

definition calls_of_model :: "ndarray \<Rightarrow> 'y \<Rightarrow> ndarray \<Rightarrow> 'y \<Rightarrow> nat \<Rightarrow> 'y call list" where
  "calls_of_model X_train_rf y_train X_test_rf y_test rp =
     [Fitted (cols_upto rp X_train_rf) y_train, Scored (cols_upto rp X_train_rf) y_train,
      Scored (cols_upto rp X_test_rf) y_test]"

section \<open>The Julia script\<close>

text \<open>
  \<^verbatim>\<open>
  import Pkg
  Pkg.add("PyCall")
  using PyCall
  lgopu = pyimport("lightonopu")
  np = pyimport("numpy")
  x = np.random.randint(0, 2, size=(3000, 912*1140), dtype=np.uint8)
  opu = lgopu.OPU(n_components=10000)
  y = opu.transform1d(x)
  y = @pycall opu.transform1d(x::Array)::PyArray
  println(typeof(y))
  println(ndims(y))
  println(minimum(y), " ", maximum(y))
  \<close>
  \<open>import\<close> and \<open>using\<close> bring names into scope. A printed line is the list of the values
  given to \<open>println\<close>.
\<close>

datatype jl_value = Type_name string | Number int | Text string

record ('w, 'e, 'mod, 'x, 'opu, 'y) jllib =
  Pkg_add :: "string \<Rightarrow> ('w, 'e, unit) prog"
  pyimport :: "string \<Rightarrow> ('w, 'e, 'mod) prog"
  np_random_randint :: "'mod \<Rightarrow> int \<Rightarrow> int \<Rightarrow> nat \<times> nat \<Rightarrow> string \<Rightarrow> ('w, 'e, 'x) prog"
  lgopu_OPU :: "'mod \<Rightarrow> nat \<Rightarrow> ('w, 'e, 'opu) prog"
  opu_transform1d :: "'opu \<Rightarrow> 'x \<Rightarrow> ('w, 'e, 'y) prog"
  typeof :: "'y \<Rightarrow> ('w, 'e, string) prog"
  ndims :: "'y \<Rightarrow> ('w, 'e, int) prog"
  minimum :: "'y \<Rightarrow> ('w, 'e, int) prog"
  maximum :: "'y \<Rightarrow> ('w, 'e, int) prog"
  println :: "jl_value list \<Rightarrow> ('w, 'e, unit) prog"

definition julia_opu :: "('w, 'e, 'mod, 'x, 'opu, 'y) jllib \<Rightarrow> ('w, 'e, unit) prog" where
  "julia_opu L =
     then_do (Pkg_add L ''PyCall'') (\<lambda>_.
     then_do (pyimport L ''lightonopu'') (\<lambda>lgopu.
     then_do (pyimport L ''numpy'') (\<lambda>np.
     then_do (np_random_randint L np 0 2 (3000, 912 * 1140) ''uint8'') (\<lambda>x.
     then_do (lgopu_OPU L lgopu 10000) (\<lambda>opu.
     then_do (opu_transform1d L opu x) (\<lambda>y.
     then_do (opu_transform1d L opu x) (\<lambda>y.
     then_do (typeof L y) (\<lambda>t.
     then_do (println L [Type_name t]) (\<lambda>_.
     then_do (ndims L y) (\<lambda>d.
     then_do (println L [Number d]) (\<lambda>_.
     then_do (minimum L y) (\<lambda>lo.
     then_do (maximum L y) (\<lambda>hi.
     println L [Number lo, Text '' '', Number hi])))))))))))))"

text \<open>
  A recording library for the script. An array is known by its element type and shape
  (the input has over three billion entries); what the device returns is the parameter
  \<open>device\<close>, and the properties Julia reads off the returned array are its fields.
\<close>

record array_info =
  dtype :: string
  dims :: "nat \<times> nat"

record returned_array =
  type_name :: string
  n_dims :: int
  least :: int
  greatest :: int

datatype jl_call =
    Added string
  | Imported string
  | Drew string int int array_info
  | Opened string nat
  | Transformed1d nat array_info
  | Printed "jl_value list"

definition jl_recording ::
  "(nat \<Rightarrow> array_info \<Rightarrow> returned_array) \<Rightarrow>
   (jl_call list, exn, string, array_info, nat, returned_array) jllib" where
  "jl_recording device =
     \<lparr>Pkg_add = (\<lambda>name. record_call (Added name) ()),
      pyimport = (\<lambda>name. record_call (Imported name) name),
      np_random_randint = (\<lambda>np lo hi size dt.
         record_call (Drew np lo hi \<lparr>dtype = dt, dims = size\<rparr>) \<lparr>dtype = dt, dims = size\<rparr>),
      lgopu_OPU = (\<lambda>lgopu n. record_call (Opened lgopu n) n),
      opu_transform1d = (\<lambda>opu x. record_call (Transformed1d opu x) (device opu x)),
      typeof = (\<lambda>y. ret (type_name y)),
      ndims = (\<lambda>y. ret (n_dims y)),
      minimum = (\<lambda>y. ret (least y)),
      maximum = (\<lambda>y. ret (greatest y)),
      println = (\<lambda>vs. record_call (Printed vs) ())\<rparr>"

section \<open>Feature extraction and the OPU projection\<close>

text \<open>
  The calls of \<open>get_conv_features\<close> into Torch and NumPy. Iterating over a loader gives
  its batches one by one: \<open>iter_loader\<close> returns the fetches of one pass, each of which may
  raise when it is its turn. A batch is its images and their targets; the output of the
  network for a batch is one list of features per image, in storage order.
\<close>

record ('w, 'e, 'ld, 'md, 'img) torchlib = "('w, 'e) stdlib" +
  len_dataset :: "'ld \<Rightarrow> ('w, 'e, nat) prog"
  get_batch_size :: "'ld \<Rightarrow> ('w, 'e, nat) prog"
  torch_FloatTensor :: "nat \<Rightarrow> int \<Rightarrow> ('w, 'e, ndarray) prog"
  tensor_to :: "ndarray \<Rightarrow> string \<Rightarrow> ('w, 'e, ndarray) prog"
  np_empty :: "nat \<Rightarrow> ('w, 'e, int list) prog"
  model_eval :: "'md \<Rightarrow> ('w, 'e, unit) prog"
  cuda_synchronize :: "('w, 'e, unit) prog"
  no_grad_enter :: "('w, 'e, unit) prog"
  no_grad_exit :: "('w, 'e, unit) prog"
  iter_loader :: "'ld \<Rightarrow> ('w, 'e, ('w, 'e, 'img list \<times> int list) prog list) prog"
  images_to :: "'img list \<Rightarrow> string \<Rightarrow> ('w, 'e, 'img list) prog"
  model_call :: "'md \<Rightarrow> 'img list \<Rightarrow> ('w, 'e, real list list) prog"
  data_view :: "real list list \<Rightarrow> nat \<Rightarrow> ('w, 'e, ndarray) prog"
  setitem_rows :: "ndarray \<Rightarrow> nat \<Rightarrow> nat \<Rightarrow> ndarray \<Rightarrow> ('w, 'e, ndarray) prog"
  targets_numpy :: "int list \<Rightarrow> ('w, 'e, int list) prog"
  setitem_slice :: "int list \<Rightarrow> nat \<Rightarrow> nat \<Rightarrow> int list \<Rightarrow> ('w, 'e, int list) prog"
  tensor_gt :: "ndarray \<Rightarrow> real \<Rightarrow> ('w, 'e, bool array2) prog"
  tensor_cpu :: "bool array2 \<Rightarrow> ('w, 'e, bool array2) prog"

text \<open>
  \<^verbatim>\<open>
  def get_conv_features(loader, model, out_shape, device='cpu'):
      n_images = len(loader.dataset)
      batch_size = loader.batch_size
      conv_features = torch.FloatTensor(n_images, out_shape).to(device)
      labels = np.empty(n_images, dtype='uint8')
      model.eval()
      torch.cuda.synchronize()
      t0 = time()
      with torch.no_grad():
          for i, (images, targets) in enumerate(loader):
              images = images.to(device)
              outputs = model(images)
              conv_features[i * batch_size: (i + 1) * batch_size, :] = outputs.data.view(images.size(0), -1)
              labels[i * batch_size: (i + 1) * batch_size] = targets.numpy()
          torch.cuda.synchronize()
          conv_time = time() - t0
          torch.cuda.synchronize()
          start = time()
          conv_features = (conv_features > 0)
          torch.cuda.synchronize()
          encode_time = time() - start
          conv_features = conv_features.cpu()
      return conv_features, labels, conv_time, encode_time
  \<close>
\<close>

definition get_conv_features_body ::
  "('w, 'e, 'ld, 'md, 'img) torchlib \<Rightarrow> 'md \<Rightarrow> string \<Rightarrow> nat \<Rightarrow>
   nat \<times> ('w, 'e, 'img list \<times> int list) prog \<Rightarrow> ndarray \<times> int list \<Rightarrow>
   ('w, 'e, ndarray \<times> int list) prog" where
  "get_conv_features_body L model device batch_size =
     (\<lambda>(i, fetch) (conv_features, labels).
        then_do fetch (\<lambda>(images, targets).
        then_do (images_to L images device) (\<lambda>images.
        then_do (model_call L model images) (\<lambda>outputs.
        then_do (data_view L outputs (length images)) (\<lambda>flat.
        then_do (setitem_rows L conv_features (i * batch_size) ((i + 1) * batch_size) flat)
          (\<lambda>conv_features.
        then_do (targets_numpy L targets) (\<lambda>targets.
        then_do (setitem_slice L labels (i * batch_size) ((i + 1) * batch_size) targets)
          (\<lambda>labels.
        ret (conv_features, labels)))))))))"

definition get_conv_features ::
  "('w, 'e, 'ld, 'md, 'img) torchlib \<Rightarrow> 'ld \<Rightarrow> 'md \<Rightarrow> int \<Rightarrow> string \<Rightarrow>
   ('w, 'e, bool array2 \<times> int list \<times> real \<times> real) prog" where
  "get_conv_features L loader model out_shape device =
     then_do (len_dataset L loader) (\<lambda>n_images.
     then_do (get_batch_size L loader) (\<lambda>batch_size.
     then_do (torch_FloatTensor L n_images out_shape) (\<lambda>allocated.
     then_do (tensor_to L allocated device) (\<lambda>conv_features.
     then_do (np_empty L n_images) (\<lambda>labels.
     then_do (model_eval L model) (\<lambda>_.
     then_do (cuda_synchronize L) (\<lambda>_.
     then_do (time L) (\<lambda>t0.
     with_do (no_grad_enter L) (no_grad_exit L)
       (then_do (iter_loader L loader) (\<lambda>fetches.
        then_do (for_loop (enumerate_from0 fetches)
                   (get_conv_features_body L model device batch_size)
                   (conv_features, labels)) (\<lambda>(conv_features, labels).
        then_do (cuda_synchronize L) (\<lambda>_.
        then_do (time L) (\<lambda>now.
        let conv_time = now - t0 in
        then_do (cuda_synchronize L) (\<lambda>_.
        then_do (time L) (\<lambda>start.
        then_do (tensor_gt L conv_features 0) (\<lambda>conv_features.
        then_do (cuda_synchronize L) (\<lambda>_.
        then_do (time L) (\<lambda>now.
        let encode_time = now - start in
        then_do (tensor_cpu L conv_features) (\<lambda>conv_features.
        ret (conv_features, labels, conv_time, encode_time))))))))))))))))))))"

text \<open>
  \<^verbatim>\<open>
  def get_random_features(X, n_components):
      opu = OPUMap(n_components=n_components)
      since = time()
      random_features = opu.transform(X)
      proj_time = time() - since
      since = time()
      random_features = random_features.type(torch.FloatTensor)
      decode_time = time() - since
      return random_features, proj_time, decode_time
  \<close>
\<close>

record ('w, 'e, 'opu, 'rf) opulib = "('w, 'e) stdlib" +
  OPUMap :: "int \<Rightarrow> ('w, 'e, 'opu) prog"
  opu_transform :: "'opu \<Rightarrow> bool array2 \<Rightarrow> ('w, 'e, 'rf) prog"
  tensor_type_float :: "'rf \<Rightarrow> ('w, 'e, ndarray) prog"

definition get_random_features ::
  "('w, 'e, 'opu, 'rf) opulib \<Rightarrow> bool array2 \<Rightarrow> int \<Rightarrow> ('w, 'e, ndarray \<times> real \<times> real) prog" where
  "get_random_features L X n_components =
     then_do (OPUMap L n_components) (\<lambda>opu.
     then_do (time L) (\<lambda>since.
     then_do (opu_transform L opu X) (\<lambda>random_features.
     then_do (time L) (\<lambda>now.
     let proj_time = now - since in
     then_do (time L) (\<lambda>since.
     then_do (tensor_type_float L random_features) (\<lambda>random_features.
     then_do (time L) (\<lambda>now.
     let decode_time = now - since in
     ret (random_features, proj_time, decode_time))))))))"

section \<open>Libraries that keep track of what they raise\<close>

text \<open>
  Any library can be run so that the world also holds the exceptions its calls have raised,
  in order. \<open>traced m\<close> is the call \<open>m\<close> with this bookkeeping.
\<close>

definition traced :: "('w, 'e, 'a) prog \<Rightarrow> ('w \<times> 'e list, 'e, 'a) prog" where
  "traced m =
     (\<lambda>(w, raised). case m w of
        (Inl e, w') \<Rightarrow> (Inl e, (w', raised @ [e]))
      | (Inr x, w') \<Rightarrow> (Inr x, (w', raised)))"

definition traced_pylib :: "('w, 'e) pylib \<Rightarrow> ('w \<times> 'e list, 'e) pylib" where
  "traced_pylib L =
     \<lparr>time = traced (time L),
      py_floordiv = (\<lambda>a b. traced (py_floordiv L a b)),
      print = (\<lambda>s i. traced (print L s i)),
      np_zeros = (\<lambda>sh. traced (np_zeros L sh)),
      np_random_randn = (\<lambda>r c. traced (np_random_randn L r c)),
      setitem_all = (\<lambda>A B. traced (setitem_all L A B)),
      np_sqrt = (\<lambda>n. traced (np_sqrt L n)),
      itruediv = (\<lambda>A s. traced (itruediv L A s)),
      cp_asarray = (\<lambda>A. traced (cp_asarray L A)),
      cp_dot = (\<lambda>A B. traced (cp_dot L A B)),
      cp_abs = (\<lambda>A. traced (cp_abs L A)),
      cp_pow = (\<lambda>A k. traced (cp_pow L A k)),
      cp_asnumpy = (\<lambda>A. traced (cp_asnumpy L A)),
      cp_asnumpy_seq = (\<lambda>As. traced (cp_asnumpy_seq L As)),
      np_concatenate = (\<lambda>As axis. traced (np_concatenate L As axis))\<rparr>"

definition traced_torchlib ::
  "('w, 'e, 'ld, 'md, 'img) torchlib \<Rightarrow> ('w \<times> 'e list, 'e, 'ld, 'md, 'img) torchlib" where
  "traced_torchlib L =
     \<lparr>time = traced (time L),
      len_dataset = (\<lambda>ld. traced (len_dataset L ld)),
      get_batch_size = (\<lambda>ld. traced (get_batch_size L ld)),
      torch_FloatTensor = (\<lambda>n m. traced (torch_FloatTensor L n m)),
      tensor_to = (\<lambda>A d. traced (tensor_to L A d)),
      np_empty = (\<lambda>n. traced (np_empty L n)),
      model_eval = (\<lambda>md. traced (model_eval L md)),
      cuda_synchronize = traced (cuda_synchronize L),
      no_grad_enter = traced (no_grad_enter L),
      no_grad_exit = traced (no_grad_exit L),
      iter_loader = (\<lambda>ld. then_do (traced (iter_loader L ld)) (\<lambda>fetches. ret (map traced fetches))),
      images_to = (\<lambda>imgs d. traced (images_to L imgs d)),
      model_call = (\<lambda>md imgs. traced (model_call L md imgs)),
      data_view = (\<lambda>outs k. traced (data_view L outs k)),
      setitem_rows = (\<lambda>A a b V. traced (setitem_rows L A a b V)),
      targets_numpy = (\<lambda>ts. traced (targets_numpy L ts)),
      setitem_slice = (\<lambda>ls a b ts. traced (setitem_slice L ls a b ts)),
      tensor_gt = (\<lambda>A c. traced (tensor_gt L A c)),
      tensor_cpu = (\<lambda>A. traced (tensor_cpu L A))\<rparr>"

definition traced_opulib :: "('w, 'e, 'opu, 'rf) opulib \<Rightarrow> ('w \<times> 'e list, 'e, 'opu, 'rf) opulib" where
  "traced_opulib L =
     \<lparr>time = traced (time L),
      OPUMap = (\<lambda>n. traced (OPUMap L n)),
      opu_transform = (\<lambda>opu X. traced (opu_transform L opu X)),
      tensor_type_float = (\<lambda>rf. traced (tensor_type_float L rf))\<rparr>"

text \<open>
  \<open>propagates n m\<close>: when \<open>m\<close> returns, no library call has raised during it; when \<open>m\<close>
  raises \<open>e\<close>, the last library call that raised during it raised \<open>e\<close>, and at most \<open>n\<close>
  calls raised before that one. With \<open>n = 0\<close>: the one call that raised is the last thing
  that happened, and its exception is what the caller gets.
\<close>

definition propagates :: "nat \<Rightarrow> ('w \<times> 'e list, 'e, 'a) prog \<Rightarrow> bool" where
  "propagates n m =
     (\<forall>w raised. case m (w, raised) of
        (Inl e, (w', raised')) \<Rightarrow> (\<exists>before. raised' = raised @ before @ [e] \<and> length before \<le> n)
      | (Inr x, (w', raised')) \<Rightarrow> raised' = raised)"

section \<open>Torch on real matrices\<close>

text \<open>
  A data loader: its dataset of images with their targets, its batch size, whether it drops
  a last incomplete batch, and its sampler. A pass over the loader draws a seed off Torch's
  global generator, and the sampler yields the indices of the pass from that seed:
  \<open>range(n)\<close> whatever the seed for a plain loader, a permutation that the seed chooses
  for a shuffling one (\<open>shuffle=True\<close>, as the notebook's loaders have it).
\<close>

record 'img loader =
  dataset :: "('img \<times> int) list"
  batch_size :: nat
  drop_last :: bool
  sampler :: "int \<Rightarrow> nat list"

fun chunks :: "nat \<Rightarrow> 'a list \<Rightarrow> 'a list list" where
  "chunks n xs = (if n = 0 \<or> xs = [] then [] else take n xs # chunks n (drop n xs))"

definition batches :: "'img loader \<Rightarrow> int \<Rightarrow> nat list list" where
  "batches ld seed =
     (let bs = chunks (batch_size ld) (sampler ld seed)
      in if drop_last ld then filter (\<lambda>b. length b = batch_size ld) bs else bs)"

definition fetch :: "'img loader \<Rightarrow> nat list \<Rightarrow> ('w, exn, 'img list \<times> int list) prog" where
  "fetch ld ixs =
     (if list_all (\<lambda>i. i < length (dataset ld)) ixs
      then ret (map (\<lambda>i. fst (dataset ld ! i)) ixs, map (\<lambda>i. snd (dataset ld ! i)) ixs)
      else raise IndexError)"

text \<open>The world of Torch: the world above, what the memory handed out by
  \<open>torch.FloatTensor(n, m)\<close> and \<open>np.empty(n)\<close> holds, which nothing has initialised, and
  the seeds Torch's global generator gives, with the number of them already drawn. The
  notebook never seeds that generator.\<close>

record torch_world = world +
  junk :: "nat \<Rightarrow> nat \<Rightarrow> real"
  junk_bytes :: "nat \<Rightarrow> int"
  seeds :: "nat \<Rightarrow> int"
  seeded :: nat

definition float_tensor :: "nat \<Rightarrow> int \<Rightarrow> (torch_world, exn, ndarray) prog" where
  "float_tensor n m =
     (if m < 0 then raise RuntimeError
      else (\<lambda>w. (Inr \<lparr>nrows = n, ncols = nat m,
                       rows = map (\<lambda>i. map (junk w i) [0..<nat m]) [0..<n]\<rparr>, w)))"

definition empty_uint8 :: "nat \<Rightarrow> (torch_world, exn, int list) prog" where
  "empty_uint8 n = (\<lambda>w. (Inr (map (\<lambda>i. junk_bytes w i mod 256) [0..<n]), w))"

text \<open>\<open>enumerate(loader)\<close> starts a pass: it draws the next seed, and the batches of the
  pass are fetched one by one as the loop asks for them.\<close>

definition iterate ::
  "'img loader \<Rightarrow> (torch_world, exn, (torch_world, exn, 'img list \<times> int list) prog list) prog" where
  "iterate ld =
     (\<lambda>w. (Inr (map (fetch ld) (batches ld (seeds w (seeded w)))), w\<lparr>seeded := Suc (seeded w)\<rparr>))"

text \<open>\<open>outputs.data.view(k, -1)\<close>: the entries in storage order, cut into \<open>k\<close> rows of equal
  length. A tensor without entries becomes \<open>k\<close> empty rows; no row count fits when \<open>k\<close> is
  0 or does not divide the number of entries.\<close>

definition view :: "real list list \<Rightarrow> nat \<Rightarrow> ('w, exn, ndarray) prog" where
  "view outputs k =
     (let flat = concat outputs; total = length flat; c = total div k
      in if k = 0 \<or> total mod k \<noteq> 0 then raise RuntimeError
         else ret \<lparr>nrows = k, ncols = c,
                   rows = map (\<lambda>i. take c (drop (i * c) flat)) [0..<k]\<rparr>)"

text \<open>\<open>A[a:b, :] = V\<close> and \<open>l[a:b] = v\<close>: the slice ends where the array ends, and the
  value is broadcast to the slice. A uint8 array keeps its values modulo 256.\<close>

definition set_rows :: "ndarray \<Rightarrow> nat \<Rightarrow> nat \<Rightarrow> ndarray \<Rightarrow> ('w, exn, ndarray) prog" where
  "set_rows A a b V =
     (let lo = min a (nrows A); hi = min b (nrows A)
      in if broadcastable (hi - lo, ncols A) V
         then ret (A\<lparr>rows := take lo (rows A) @ rows (broadcast_to (hi - lo, ncols A) V)
                                 @ drop hi (rows A)\<rparr>)
         else raise RuntimeError)"

definition set_slice :: "int list \<Rightarrow> nat \<Rightarrow> nat \<Rightarrow> int list \<Rightarrow> ('w, exn, int list) prog" where
  "set_slice ls a b v =
     (let lo = min a (length ls); hi = min b (length ls)
      in if length v = hi - lo \<or> length v = 1
         then ret (take lo ls @ map (\<lambda>x. x mod 256) (stretch (hi - lo) v) @ drop hi ls)
         else raise ValueError)"

text \<open>The network is a function from an image to its features, a device is present
  (\<open>torch.cuda.synchronize\<close> returns), and moving a tensor between devices leaves its
  entries as they are.\<close>

definition torch :: "(torch_world, exn, 'img loader, 'img \<Rightarrow> real list, 'img) torchlib" where
  "torch =
     \<lparr>time = time_time,
      len_dataset = (\<lambda>ld. ret (length (dataset ld))),
      get_batch_size = (\<lambda>ld. ret (batch_size ld)),
      torch_FloatTensor = float_tensor,
      tensor_to = (\<lambda>A d. ret A),
      np_empty = empty_uint8,
      model_eval = (\<lambda>md. ret ()),
      cuda_synchronize = ret (),
      no_grad_enter = ret (),
      no_grad_exit = ret (),
      iter_loader = iterate,
      images_to = (\<lambda>imgs d. ret imgs),
      model_call = (\<lambda>md imgs. ret (map md imgs)),
      data_view = view,
      setitem_rows = set_rows,
      targets_numpy = ret,
      setitem_slice = set_slice,
      tensor_gt = (\<lambda>A c. ret (map_entries (\<lambda>v. c < v) A)),
      tensor_cpu = ret\<rparr>"

text \<open>The indices of the samples that a pass started in world \<open>w\<close> yields, in the order
  of the pass, and the features of the \<open>i\<close>-th of them, thresholded.\<close>

definition yielded :: "'img loader \<Rightarrow> torch_world \<Rightarrow> nat list" where
  "yielded ld w = concat (batches ld (seeds w (seeded w)))"

definition encoded_features ::
  "'img loader \<Rightarrow> ('img \<Rightarrow> real list) \<Rightarrow> torch_world \<Rightarrow> nat \<Rightarrow> bool list" where
  "encoded_features ld model w i = map (\<lambda>f. 0 < f) (model (fst (dataset ld ! (yielded ld w ! i))))"

text \<open>The features of sample \<open>i\<close> of the dataset, thresholded.\<close>

definition encoded_sample :: "'img loader \<Rightarrow> ('img \<Rightarrow> real list) \<Rightarrow> nat \<Rightarrow> bool list" where
  "encoded_sample ld model i = map (\<lambda>f. 0 < f) (model (fst (dataset ld ! i)))"

text \<open>A torch world to run examples in: the uninitialised memory holds \<open>-1\<close> everywhere,
  and the \<open>k\<close>-th seed of the generator is \<open>k\<close>.\<close>

definition example_torch_world :: torch_world where
  "example_torch_world =
     \<lparr>draws = (\<lambda>i. real i + 1), used = 0, clock = (\<lambda>i. real i), reads = 0, stdout = [],
      junk = (\<lambda>i j. - 1), junk_bytes = (\<lambda>i. 0), seeds = (\<lambda>k. int k), seeded = 0\<rparr>"

text \<open>The arrays \<open>get_conv_features\<close> returns, without the times: the features and the
  labels.\<close>

definition arrays_of ::
  "('e + 'a \<times> 'b \<times> real \<times> real) \<times> 'w \<Rightarrow> 'e + 'a \<times> 'b" where
  "arrays_of r = map_sum id (\<lambda>(features, labels, conv_time, encode_time). (features, labels)) (fst r)"

text \<open>The array \<open>get_random_features\<close> returns, without the times.\<close>

definition features_of :: "('e + 'a \<times> real \<times> real) \<times> 'w \<Rightarrow> 'e + 'a" where
  "features_of r = map_sum id fst (fst r)"

section \<open>The OPU as a library\<close>

text \<open>
  The vendor's \<open>OPUMap\<close> over a device: what the device measures for an input is the
  parameter \<open>device\<close>, which may depend on the world (the state of the hardware at the time
  of the call). The handle is the number of components; the measured bytes are converted
  to floats as they are.
\<close>

definition optical ::
  "(world \<Rightarrow> int \<Rightarrow> bool array2 \<Rightarrow> int array2) \<Rightarrow> (world, exn, int, int array2) opulib" where
  "optical device =
     \<lparr>time = time_time,
      OPUMap = ret,
      opu_transform = (\<lambda>opu X w. (Inr (device w opu X), w)),
      tensor_type_float = (\<lambda>rf. ret (map_entries real_of_int rf))\<rparr>"

section \<open>Sequencing and the library instance, unfolded\<close>

lemma then_do_ret: "then_do (ret x) f = f x"
  by (simp add: then_do_def ret_def)

lemma then_do_raise: "then_do (raise e) f = raise e"
  by (simp add: then_do_def raise_def)

lemma numpy_fields:
  "py_floordiv numpy = floordiv" "time numpy = time_time" "print numpy = print_line"
  "np_zeros numpy = zeros" "np_random_randn numpy = randn" "setitem_all numpy = assign_all"
  "np_sqrt numpy = sqrt_int" "itruediv numpy = divide_by" "cp_asarray numpy = ret"
  "cp_dot numpy = dot" "cp_abs numpy = (\<lambda>A. ret (map_entries abs A))"
  "cp_pow numpy = (\<lambda>A k. ret (map_entries (\<lambda>x. x ^ k) A))"
  "cp_asnumpy numpy = ret" "cp_asnumpy_seq numpy = asnumpy_seq" "np_concatenate numpy = concatenate"
  by (simp_all add: numpy_def)

lemma map_entries_comp: "map_entries f (map_entries g A) = map_entries (f \<circ> g) A"
  by (simp add: map_entries_def)

lemma compute_dot_split_numpy:
  "compute_dot_split numpy x rm =
     (if ncols x = nrows rm then ret (squared_abs (matmul x rm)) else raise ValueError)"
  by (simp add: compute_dot_split_def numpy_fields then_do_ret then_do_raise dot_def
      squared_abs_def map_entries_comp comp_def)

lemma for_loop_collect:
  "for_loop xs (\<lambda>x acc. then_do (if P x then ret (h x) else raise e) (\<lambda>out. ret (acc @ [out]))) acc =
   (if list_all P xs then ret (acc @ map h xs) else raise e)"
  by (induction xs arbitrary: acc) (simp_all add: then_do_ret then_do_raise)

lemma dot_loop_numpy:
  "for_loop R (\<lambda>matrix random_features.
       then_do (compute_dot_split numpy X matrix) (\<lambda>out. ret (random_features @ [out]))) acc =
   (if list_all (\<lambda>M. ncols X = nrows M) R
    then ret (acc @ map (\<lambda>M. squared_abs (matmul X M)) R) else raise ValueError)"
  by (simp only: compute_dot_split_numpy for_loop_collect)

lemma upt_split_add: "[0..<a + b] = [0..<a] @ map (\<lambda>j. a + j) [0..<b]"
  by (induction b) simp_all

lemma columns_hstack_aux:
  "list_all (\<lambda>A. valid A \<and> nrows A = n) As \<Longrightarrow>
   map (\<lambda>j. map (\<lambda>i. concat (map (\<lambda>A. rows A ! i) As) ! j) [0..<n]) [0..<sum_list (map ncols As)]
     = concat (map columns As)"
proof (induction As)
  case Nil
  then show ?case by simp
next
  case (Cons A As)
  have len: "length (rows A) = n"
    using Cons.prems by (simp add: valid_def)
  have "list_all (\<lambda>r. length r = ncols A) (rows A)"
    using Cons.prems by (simp add: valid_def)
  then have row_len: "length (rows A ! i) = ncols A" if "i < n" for i
    using that len by (simp add: list_all_length)
  have left: "map (\<lambda>j. map (\<lambda>i. (rows A ! i @ concat (map (\<lambda>A. rows A ! i) As)) ! j) [0..<n]) [0..<ncols A]
      = columns A"
    unfolding columns_def column_def
  proof (rule map_cong [OF refl])
    fix j assume "j \<in> set [0..<ncols A]"
    then have j: "j < ncols A" by simp
    show "map (\<lambda>i. (rows A ! i @ concat (map (\<lambda>A. rows A ! i) As)) ! j) [0..<n] = map (\<lambda>r. r ! j) (rows A)"
      by (rule nth_equalityI) (simp_all add: len row_len j nth_append)
  qed
  have right: "map (\<lambda>j. map (\<lambda>i. (rows A ! i @ concat (map (\<lambda>A. rows A ! i) As)) ! (ncols A + j)) [0..<n]) js
      = map (\<lambda>j. map (\<lambda>i. concat (map (\<lambda>A. rows A ! i) As) ! j) [0..<n]) js" for js
    by (simp add: row_len nth_append)
  have IH: "map (\<lambda>j. map (\<lambda>i. concat (map (\<lambda>A. rows A ! i) As) ! j) [0..<n]) [0..<sum_list (map ncols As)]
     = concat (map columns As)"
    using Cons.IH Cons.prems by simp
  show ?case
    by (simp add: upt_split_add left right IH comp_def del: upt_Suc)
qed

lemma columns_hstack:
  assumes "list_all (\<lambda>A. valid A \<and> nrows A = nrows (hd As)) As"
  shows "columns (hstack As) = concat (map columns As)"
proof -
  have "column (hstack As) = (\<lambda>j. map (\<lambda>i. concat (map (\<lambda>A. rows A ! i) As) ! j) [0..<nrows (hd As)])"
    by (rule ext) (simp add: column_def hstack_def comp_def)
  then have "columns (hstack As)
      = map (\<lambda>j. map (\<lambda>i. concat (map (\<lambda>A. rows A ! i) As) ! j) [0..<nrows (hd As)])
          [0..<sum_list (map ncols As)]"
    by (simp add: columns_def hstack_def)
  then show ?thesis
    using columns_hstack_aux [OF assms] by simp
qed

lemma concat_map_map: "concat (map (\<lambda>x. map f (g x)) xs) = map f (concat (map g xs))"
  by (induction xs) simp_all

lemma hstack_sel:
  "nrows (hstack As) = nrows (hd As)" "ncols (hstack As) = sum_list (map ncols As)"
  "rows (hstack As) = map (\<lambda>i. concat (map (\<lambda>A. rows A ! i) As)) [0..<nrows (hd As)]"
  by (simp_all add: hstack_def)

lemma hstack_matmul:
  assumes X: "length (rows X) = nrows X" and ne: "R \<noteq> []"
    and R: "list_all (\<lambda>M. valid M \<and> nrows M = nrows (hd R)) R"
  shows "hstack (map (\<lambda>M. squared_abs (matmul X M)) R) = squared_abs (matmul X (hstack R))"
proof -
  have nr: "nrows (hd (map (\<lambda>M. squared_abs (matmul X M)) R)) = nrows X"
    using ne by (cases R) (simp_all add: squared_abs_def map_entries_def matmul_def)
  have nc: "sum_list (map ncols (map (\<lambda>M. squared_abs (matmul X M)) R)) = sum_list (map ncols R)"
    by (simp add: squared_abs_def map_entries_def matmul_def comp_def)
  have row: "concat (map (\<lambda>A. rows A ! i) (map (\<lambda>M. squared_abs (matmul X M)) R))
      = map (\<lambda>c. \<bar>dot_entry (rows X ! i) c\<bar> ^ 2) (columns (hstack R))" if "i < nrows X" for i
    using that X
    by (simp add: squared_abs_def map_entries_def matmul_def comp_def concat_map_map
        columns_hstack [OF R])
  have rowsX: "rows X = map (\<lambda>i. rows X ! i) [0..<nrows X]"
    using X map_nth [of "rows X"] by simp
  have "rows (squared_abs (matmul X (hstack R)))
      = map (\<lambda>r. map (\<lambda>c. \<bar>dot_entry r c\<bar> ^ 2) (columns (hstack R))) (rows X)"
    by (simp add: squared_abs_def map_entries_def matmul_def comp_def)
  also have "\<dots> = map (\<lambda>i. map (\<lambda>c. \<bar>dot_entry (rows X ! i) c\<bar> ^ 2) (columns (hstack R))) [0..<nrows X]"
    by (subst rowsX) (simp add: comp_def del: map_nth)
  finally have rhs: "rows (squared_abs (matmul X (hstack R)))
      = map (\<lambda>i. map (\<lambda>c. \<bar>dot_entry (rows X ! i) c\<bar> ^ 2) (columns (hstack R))) [0..<nrows X]" .
  have lhs: "rows (hstack (map (\<lambda>M. squared_abs (matmul X M)) R))
      = map (\<lambda>i. map (\<lambda>c. \<bar>dot_entry (rows X ! i) c\<bar> ^ 2) (columns (hstack R))) [0..<nrows X]"
    using row nr by (simp add: hstack_sel(3))
  have shape: "nrows (squared_abs (matmul X (hstack R))) = nrows X"
    "ncols (squared_abs (matmul X (hstack R))) = sum_list (map ncols R)"
    by (simp_all add: squared_abs_def map_entries_def matmul_def hstack_sel)
  show ?thesis
    by (rule array2.equality) (simp_all add: lhs rhs shape hstack_sel(1,2) nr nc del: map_map)
qed

lemma run_ret: "ret x w = (Inr x, w)" by (simp add: ret_def)
lemma run_raise: "raise e w = (Inl e, w)" by (simp add: raise_def)
lemma run_then_do:
  "then_do m f w = (case m w of (Inl e, w') \<Rightarrow> (Inl e, w') | (Inr x, w') \<Rightarrow> f x w')"
  by (simp add: then_do_def)

lemma get_rand_features_GPU_numpy:
  "get_rand_features_GPU numpy R X w =
     (if list_all (\<lambda>M. ncols X = nrows M) R
         \<and> list_all (\<lambda>A. same_shape A (hd (map (\<lambda>M. squared_abs (matmul X M)) R)))
              (map (\<lambda>M. squared_abs (matmul X M)) R)
         \<and> R \<noteq> []
      then (Inr (hstack (map (\<lambda>M. squared_abs (matmul X M)) R),
                 clock w (Suc (reads w)) - clock w (reads w)),
            w\<lparr>reads := Suc (Suc (reads w))\<rparr>)
      else (Inl ValueError, w\<lparr>reads := Suc (reads w)\<rparr>))"
  by (simp add: get_rand_features_GPU_def numpy_fields then_do_ret dot_loop_numpy
      run_then_do time_time_def run_ret run_raise asnumpy_seq_def concatenate_def
      list_all_iff same_shape_def)

lemma stretch_same: "length xs = n \<Longrightarrow> stretch n xs = xs"
  by (simp add: stretch_def)

lemma broadcast_drawn_block: "broadcast_to (r, c) (drawn_block d u r c) = drawn_block d u r c"
  by (simp add: broadcast_to_def drawn_block_def stretch_same)

lemma generate_RM_body_numpy:
  "generate_RM_body numpy nc (nf, q) b i R w =
     (if nf < 0 \<or> q < 0
      then (Inl ValueError, w\<lparr>stdout := stdout w @ [(''Generating random matrix # '', i + 1)]\<rparr>)
      else (Inr (R @ [normalized b nc (drawn_block (draws w) (used w) (nat nf) (nat q))]),
            w\<lparr>stdout := stdout w @ [(''Generating random matrix # '', i + 1)],
              used := used w + nat nf * nat q\<rparr>))"
  by (simp add: generate_RM_body_def numpy_fields run_then_do print_line_def zeros_def
      run_raise run_ret randn_def assign_all_def broadcastable_def drawn_block_def
      broadcast_drawn_block [unfolded drawn_block_def] sqrt_int_def divide_by_def normalized_def)

lemma generate_RM_loop_ok:
  assumes "0 \<le> nf" "0 \<le> q"
  shows "for_loop is (generate_RM_body numpy nc (nf, q) b) acc w =
     (Inr (acc @ map (block_at w b nc nf q) [0..<length is]),
      w\<lparr>stdout := stdout w @ map (\<lambda>i. (''Generating random matrix # '', i + 1)) is,
        used := used w + length is * (nat nf * nat q)\<rparr>)"
proof (induction "is" arbitrary: acc w)
  case Nil
  show ?case by (simp add: run_ret)
next
  case (Cons i "is")
  have shift: "map (block_at (w\<lparr>stdout := s, used := used w + nat nf * nat q\<rparr>) b nc nf q) [0..<n]
      = map (block_at w b nc nf q) (map Suc [0..<n])" for s n
    by (simp add: block_at_def add.assoc)
  have upt: "[0..<Suc (length is)] = 0 # map Suc [0..<length is]"
    by (simp add: upt_conv_Cons map_Suc_upt del: upt_Suc)
  have first: "block_at w b nc nf q 0 = normalized b nc (drawn_block (draws w) (used w) (nat nf) (nat q))"
    by (simp add: block_at_def)
  let ?w' = "w\<lparr>stdout := stdout w @ [(''Generating random matrix # '', i + 1)],
              used := used w + nat nf * nat q\<rparr>"
  let ?acc' = "acc @ [normalized b nc (drawn_block (draws w) (used w) (nat nf) (nat q))]"
  have body: "generate_RM_body numpy nc (nf, q) b i acc w = (Inr ?acc', ?w')"
    using assms by (simp add: generate_RM_body_numpy)
  have "for_loop (i # is) (generate_RM_body numpy nc (nf, q) b) acc w
      = for_loop is (generate_RM_body numpy nc (nf, q) b) ?acc' ?w'"
    by (simp add: run_then_do body)
  also have "\<dots> = (Inr (?acc' @ map (block_at ?w' b nc nf q) [0..<length is]),
      ?w'\<lparr>stdout := stdout ?w' @ map (\<lambda>i. (''Generating random matrix # '', i + 1)) is,
        used := used ?w' + length is * (nat nf * nat q)\<rparr>)"
    by (rule Cons.IH)
  finally show ?case
    by (simp add: shift upt first del: upt_Suc)
qed

lemma generate_RM_loop_fail:
  assumes "nf < 0 \<or> q < 0"
  shows "for_loop (i # is) (generate_RM_body numpy nc (nf, q) b) acc w =
     (Inl ValueError, w\<lparr>stdout := stdout w @ [(''Generating random matrix # '', i + 1)]\<rparr>)"
proof -
  have "generate_RM_body numpy nc (nf, q) b i acc w =
      (Inl ValueError, w\<lparr>stdout := stdout w @ [(''Generating random matrix # '', i + 1)]\<rparr>)"
    using assms by (simp add: generate_RM_body_numpy)
  then show ?thesis
    by (simp add: run_then_do)
qed

lemma py_range_Cons: "0 < n \<Longrightarrow> py_range n = 0 # map int [1..<nat n]"
  by (simp add: py_range_def upt_conv_Cons)

lemma generate_RM_numpy:
  "generate_RM numpy nc nf n_ram b w =
     (if n_ram = 0 then (Inl ZeroDivisionError, w)
      else if 0 < n_ram \<and> (nf < 0 \<or> nc div n_ram < 0)
      then (Inl ValueError,
            w\<lparr>reads := Suc (reads w),
              stdout := stdout w @ [(''Generating random matrix # '', 1)]\<rparr>)
      else (Inr (map (block_at w b nc nf (nc div n_ram)) [0..<nat n_ram],
                 clock w (Suc (reads w)) - clock w (reads w)),
            w\<lparr>reads := Suc (Suc (reads w)),
              stdout := stdout w @ map (\<lambda>i. (''Generating random matrix # '', i + 1)) (py_range n_ram),
              used := used w + nat n_ram * (nat nf * nat (nc div n_ram))\<rparr>))"
proof -
  consider "n_ram = 0" | "0 < n_ram" "nf < 0 \<or> nc div n_ram < 0"
    | "0 < n_ram" "0 \<le> nf" "0 \<le> nc div n_ram" | "n_ram < 0"
    by linarith
  then show ?thesis
  proof cases
    case 1
    then show ?thesis
      by (simp add: generate_RM_def numpy_fields floordiv_def then_do_raise run_raise)
  next
    case 2
    then have loop: "for_loop (py_range n_ram) (generate_RM_body numpy nc (nf, nc div n_ram) b) [] v =
        (Inl ValueError, v\<lparr>stdout := stdout v @ [(''Generating random matrix # '', 0 + 1)]\<rparr>)" for v
      by (simp only: py_range_Cons generate_RM_loop_fail)
    from 2 show ?thesis
      by (simp add: generate_RM_def numpy_fields floordiv_def then_do_ret run_then_do
          time_time_def loop)
  next
    case 3
    have "block_at (w\<lparr>reads := r\<rparr>) b nc nf q = block_at w b nc nf q" for r q
      by (rule ext) (simp add: block_at_def)
    with 3 show ?thesis
      by (simp add: generate_RM_def numpy_fields floordiv_def then_do_ret run_then_do
          time_time_def generate_RM_loop_ok run_ret py_range_def)
  next
    case 4
    then show ?thesis
      by (simp add: generate_RM_def numpy_fields floordiv_def then_do_ret run_then_do
          time_time_def run_ret py_range_def)
  qed
qed

lemma valid_row_length: "valid A \<Longrightarrow> i < nrows A \<Longrightarrow> length (rows A ! i) = ncols A"
  by (simp add: valid_def list_all_length)

lemma length_concat_rows:
  "list_all (\<lambda>A. valid A \<and> i < nrows A) As \<Longrightarrow>
   length (concat (map (\<lambda>A. rows A ! i) As)) = sum_list (map ncols As)"
  by (induction As) (simp_all add: valid_row_length)

lemma valid_hstack:
  assumes "list_all (\<lambda>A. valid A \<and> nrows A = nrows (hd As)) As"
  shows "valid (hstack As)"
proof -
  have "length (concat (map (\<lambda>A. rows A ! i) As)) = sum_list (map ncols As)"
    if "i < nrows (hd As)" for i
    using assms that by (intro length_concat_rows) (simp add: list_all_iff)
  then show ?thesis
    by (simp add: valid_def hstack_sel list_all_iff)
qed

lemma dot_entry_sum:
  "length r = m \<Longrightarrow> length c = m \<Longrightarrow> dot_entry r c = (\<Sum>k<m. r ! k * c ! k)"
  by (simp add: dot_entry_def sum_list_sum_nth atLeast0LessThan)

lemma matmul_entry:
  assumes "valid A" "length (rows B) = nrows B" "ncols A = nrows B" "i < nrows A" "j < ncols B"
  shows "rows (matmul A B) ! i ! j = (\<Sum>k<ncols A. rows A ! i ! k * rows B ! k ! j)"
proof -
  have "length (rows A ! i) = ncols A"
    using assms(1,4) by (simp add: valid_def list_all_length)
  moreover have "length (column B j) = ncols A"
    using assms(2,3) by (simp add: column_def)
  ultimately have "dot_entry (rows A ! i) (column B j) = (\<Sum>k<ncols A. rows A ! i ! k * column B j ! k)"
    by (rule dot_entry_sum)
  also have "\<dots> = (\<Sum>k<ncols A. rows A ! i ! k * rows B ! k ! j)"
    using assms(2,3) by (simp add: column_def)
  finally show ?thesis
    using assms(1,4,5) by (simp add: matmul_def columns_def valid_def)
qed

lemma squared_abs_entry:
  "i < length (rows A) \<Longrightarrow> j < length (rows A ! i) \<Longrightarrow> rows (squared_abs A) ! i ! j = (rows A ! i ! j)\<^sup>2"
  by (simp add: squared_abs_def map_entries_def)

lemma same_shape_blocks:
  "list_all valid R \<Longrightarrow> list_all (\<lambda>M. same_shape M (hd R)) R \<Longrightarrow>
   list_all (\<lambda>A. valid A \<and> nrows A = nrows (hd R)) R"
  by (simp add: list_all_iff same_shape_def)

text \<open>
  C1 (amended). On blocks of one common shape whose row count is the column count of \<open>X\<close>,
  the GPU path returns, with the projection time, the array whose entry \<open>(i, j)\<close> is the
  square of entry \<open>(i, j)\<close> of the matrix product of \<open>X\<close> with the blocks joined side by
  side: the squared magnitude of the product, not the product itself. It has as many rows
  as \<open>X\<close> and one column per column of a block.
\<close>

theorem gpu_projection_is_squared_product:
  assumes "R \<noteq> []" and "valid X" and "list_all valid R"
    and "list_all (\<lambda>M. same_shape M (hd R)) R" and "nrows (hd R) = ncols X"
  shows "fst (get_rand_features_GPU numpy R X w) =
           Inr (squared_abs (matmul X (hstack R)), clock w (Suc (reads w)) - clock w (reads w))
       \<and> nrows (squared_abs (matmul X (hstack R))) = nrows X
       \<and> ncols (squared_abs (matmul X (hstack R))) = sum_list (map ncols R)
       \<and> (\<forall>i<nrows X. \<forall>j<sum_list (map ncols R).
            rows (squared_abs (matmul X (hstack R))) ! i ! j =
              (\<Sum>k<ncols X. rows X ! i ! k * rows (hstack R) ! k ! j)\<^sup>2)"
proof -
  have blocks: "list_all (\<lambda>A. valid A \<and> nrows A = nrows (hd R)) R"
    using assms(3,4) by (rule same_shape_blocks)
  have X: "length (rows X) = nrows X"
    using assms(2) by (simp add: valid_def)
  have dims: "list_all (\<lambda>M. ncols X = nrows M) R"
    using assms(4,5) by (simp add: list_all_iff same_shape_def)
  have shapes: "list_all (\<lambda>A. same_shape A (hd (map (\<lambda>M. squared_abs (matmul X M)) R)))
      (map (\<lambda>M. squared_abs (matmul X M)) R)"
    using assms(1,4)
    by (cases R) (simp_all add: list_all_iff same_shape_def squared_abs_def map_entries_def matmul_def)
  have run: "fst (get_rand_features_GPU numpy R X w) =
      Inr (squared_abs (matmul X (hstack R)), clock w (Suc (reads w)) - clock w (reads w))"
    using dims shapes assms(1) by (simp add: get_rand_features_GPU_numpy hstack_matmul [OF X assms(1) blocks])
  have vh: "valid (hstack R)"
    using blocks by (rule valid_hstack)
  have entry: "rows (squared_abs (matmul X (hstack R))) ! i ! j =
      (\<Sum>k<ncols X. rows X ! i ! k * rows (hstack R) ! k ! j)\<^sup>2"
    if "i < nrows X" "j < sum_list (map ncols R)" for i j
  proof -
    have "rows (matmul X (hstack R)) ! i ! j =
        (\<Sum>k<ncols X. rows X ! i ! k * rows (hstack R) ! k ! j)"
      using assms(2) vh assms(5) that
      by (intro matmul_entry) (simp_all add: valid_def hstack_sel)
    moreover have "i < length (rows (matmul X (hstack R)))"
      using that X by (simp add: matmul_def)
    moreover have "j < length (rows (matmul X (hstack R)) ! i)"
      using that X by (simp add: matmul_def columns_def hstack_sel)
    ultimately show ?thesis
      by (simp add: squared_abs_entry)
  qed
  show ?thesis
    using run entry by (simp add: squared_abs_def map_entries_def matmul_def hstack_sel)
qed

lemmas eval_defs = array_def valid_def same_shape_def squared_abs_def map_entries_def matmul_def
  hstack_def columns_def column_def dot_entry_def example_world_def

text \<open>C1, at a \<open>2 \<times> 2\<close> input and two blocks of shape \<open>(2, 1)\<close>.\<close>

theorem gpu_projection_is_squared_product_witness:
  "fst (get_rand_features_GPU numpy [array 2 1 [[1], [3]], array 2 1 [[2], [-4]]]
          (array 2 2 [[1, 1], [2, -3]]) example_world)
     = Inr (array 2 2 [[16, 4], [49, 256]], 1)"
  using gpu_projection_is_squared_product
    [of "[array 2 1 [[1], [3]], array 2 1 [[2], [-4]]]" "array 2 2 [[1, 1], [2, -3]]" example_world]
  by (simp add: eval_defs upt_conv_Cons)

text \<open>C1 as stated fails: for \<open>X = [[1]]\<close> and the single block \<open>[[2]]\<close> the product is
  \<open>[[2]]\<close> and the GPU path returns \<open>[[4]]\<close>.\<close>

theorem gpu_projection_not_plain_product:
  "map_sum id fst (fst (get_rand_features_GPU numpy [array 1 1 [[2]]] (array 1 1 [[1]]) example_world))
     \<noteq> Inr (matmul (array 1 1 [[1]]) (array 1 1 [[2]]))"
  by (simp add: get_rand_features_GPU_numpy eval_defs upt_conv_Cons)

lemma list_all_imp: "list_all P xs \<Longrightarrow> (\<And>x. P x \<Longrightarrow> Q x) \<Longrightarrow> list_all Q xs"
  by (induction xs) auto

lemma concatenate_same_shape:
  assumes "R \<noteq> []" "list_all (\<lambda>M. same_shape M (hd R)) R"
  shows "concatenate R 1 = ret (hstack R)"
proof -
  have "list_all (\<lambda>A. nrows A = nrows (hd R)) R"
    using assms(2) by (rule list_all_imp) (simp add: same_shape_def)
  then show ?thesis
    using assms(1) by (simp add: concatenate_def)
qed

lemma project_unsplit_numpy:
  assumes "concatenate R 1 = ret (hstack R)"
  shows "project_unsplit numpy R X w =
      (if ncols X = nrows (hd R) then (Inr (squared_abs (matmul X (hstack R))), w)
       else (Inl ValueError, w))"
  using assms
  by (simp add: project_unsplit_def numpy_fields then_do_ret compute_dot_split_numpy
      hstack_sel run_ret run_raise)

lemma outputs_same_shape:
  assumes "list_all (\<lambda>M. same_shape M (hd R)) R"
  shows "list_all (\<lambda>A. same_shape A (hd (map (\<lambda>M. squared_abs (matmul X M)) R)))
      (map (\<lambda>M. squared_abs (matmul X M)) R)"
proof (cases R)
  case Nil
  then show ?thesis by simp
next
  case (Cons M Ms)
  have "list_all (\<lambda>A. same_shape (squared_abs (matmul X A)) (squared_abs (matmul X (hd R)))) R"
    using assms by (rule list_all_imp) (simp add: same_shape_def squared_abs_def map_entries_def matmul_def)
  then show ?thesis
    using Cons by (simp add: list_all_iff)
qed

text \<open>
  C5 (amended). For blocks of one common shape, projecting block by block and joining the
  results gives what the unsplit computation gives: the same array when the shapes fit,
  and an exception from both when they do not or when there is no block.
\<close>

theorem chunked_projection_refines_unsplit:
  assumes "valid X" and "list_all valid R" and "list_all (\<lambda>M. same_shape M (hd R)) R"
  shows "map_sum id fst (fst (get_rand_features_GPU numpy R X w)) = fst (project_unsplit numpy R X w)"
proof (cases "R = []")
  case True
  then show ?thesis
    by (simp add: get_rand_features_GPU_numpy project_unsplit_def numpy_fields concatenate_def
        then_do_raise run_raise)
next
  case False
  have blocks: "list_all (\<lambda>A. valid A \<and> nrows A = nrows (hd R)) R"
    using assms(2,3) by (rule same_shape_blocks)
  have X: "length (rows X) = nrows X"
    using assms(1) by (simp add: valid_def)
  note unsplit = project_unsplit_numpy [OF concatenate_same_shape [OF False assms(3)]]
  note shapes = outputs_same_shape [OF assms(3)]
  show ?thesis
  proof (cases "ncols X = nrows (hd R)")
    case True
    have "list_all (\<lambda>M. ncols X = nrows M) R"
      using assms(3) by (rule list_all_imp) (simp add: same_shape_def True)
    then have "fst (get_rand_features_GPU numpy R X w) =
        Inr (hstack (map (\<lambda>M. squared_abs (matmul X M)) R), clock w (Suc (reads w)) - clock w (reads w))"
      using False shapes by (simp add: get_rand_features_GPU_numpy)
    moreover have "fst (project_unsplit numpy R X w) = Inr (squared_abs (matmul X (hstack R)))"
      using True by (simp add: unsplit)
    ultimately show ?thesis
      by (simp add: hstack_matmul [OF X False blocks])
  next
    case wrong: False
    have "hd R \<in> set R"
      using False by simp
    then have "\<not> list_all (\<lambda>M. ncols X = nrows M) R"
      using wrong by (auto simp: list_all_iff)
    then have "fst (get_rand_features_GPU numpy R X w) = Inl ValueError"
      by (simp add: get_rand_features_GPU_numpy)
    moreover have "fst (project_unsplit numpy R X w) = Inl ValueError"
      using wrong by (simp add: unsplit)
    ultimately show ?thesis
      by simp
  qed
qed

text \<open>C5, at a \<open>2 \<times> 2\<close> input and two blocks of shape \<open>(2, 1)\<close>.\<close>

theorem chunked_projection_refines_unsplit_witness:
  "map_sum id fst (fst (get_rand_features_GPU numpy [array 2 1 [[1], [3]], array 2 1 [[2], [-4]]]
          (array 2 2 [[1, 1], [2, -3]]) example_world))
     = fst (project_unsplit numpy [array 2 1 [[1], [3]], array 2 1 [[2], [-4]]]
          (array 2 2 [[1, 1], [2, -3]]) example_world)
   \<and> fst (project_unsplit numpy [array 2 1 [[1], [3]], array 2 1 [[2], [-4]]]
          (array 2 2 [[1, 1], [2, -3]]) example_world) = Inr (array 2 2 [[16, 4], [49, 256]])"
  using chunked_projection_refines_unsplit
    [of "array 2 2 [[1, 1], [2, -3]]" "[array 2 1 [[1], [3]], array 2 1 [[2], [-4]]]" example_world]
  by (simp add: eval_defs upt_conv_Cons project_unsplit_def numpy_fields concatenate_def
      then_do_ret compute_dot_split_numpy run_ret)

text \<open>C5 as stated fails on blocks of different widths: the unsplit computation returns,
  the chunked one raises when \<open>cp.asnumpy\<close> meets arrays of unequal shape.\<close>

theorem ragged_blocks_break_chunked_projection:
  "fst (project_unsplit numpy [array 1 1 [[1]], array 1 2 [[1, 1]]] (array 1 1 [[1]]) example_world)
     = Inr (array 1 3 [[1, 1, 1]])
   \<and> map_sum id fst (fst (get_rand_features_GPU numpy [array 1 1 [[1]], array 1 2 [[1, 1]]]
          (array 1 1 [[1]]) example_world)) = Inl ValueError"
  by (simp add: get_rand_features_GPU_numpy eval_defs upt_conv_Cons project_unsplit_def numpy_fields
      concatenate_def then_do_ret compute_dot_split_numpy run_ret)

section \<open>The generated blocks\<close>

lemma sum_list_const: "sum_list (map (\<lambda>_. c) xs) = length xs * (c::nat)"
  by (induction xs) simp_all

lemma block_at_shape: "nrows (block_at w b nc nf q k) = nat nf" "ncols (block_at w b nc nf q k) = nat q"
  by (simp_all add: block_at_def normalized_def map_entries_def drawn_block_def)

lemma valid_block_at: "valid (block_at w b nc nf q k)"
  by (simp add: block_at_def normalized_def map_entries_def drawn_block_def valid_def list_all_iff)

lemma gpu_pipeline_shape:
  assumes "0 < n_ram" and "0 \<le> nc" and "0 \<le> nf" and "ncols X = nat nf"
  shows "shape_of (fst (gpu_pipeline numpy nc nf n_ram X w)) =
           Inr (nrows X, nat n_ram * nat (nc div n_ram))"
proof -
  let ?q = "nc div n_ram"
  let ?R = "map (block_at w True nc nf ?q) [0..<nat n_ram]"
  let ?outs = "map (\<lambda>M. squared_abs (matmul X M)) ?R"
  have q: "0 \<le> ?q"
    using assms(1,2) by (simp add: pos_imp_zdiv_nonneg_iff)
  obtain t w1 where gen: "generate_RM numpy nc nf n_ram True w = (Inr (?R, t), w1)"
    using assms(1,3) q by (simp add: generate_RM_numpy)
  have ne: "?R \<noteq> []"
    using assms(1) by simp
  have dims: "list_all (\<lambda>M. ncols X = nrows M) ?R"
    by (simp add: list_all_iff block_at_shape assms(4))
  have shapes: "list_all (\<lambda>A. same_shape A (hd ?outs)) ?outs"
    using ne
    by (simp add: list_all_iff same_shape_def squared_abs_def map_entries_def matmul_def
        block_at_shape hd_map)
  have run: "fst (get_rand_features_GPU numpy ?R X w1) =
      Inr (hstack ?outs, clock w1 (Suc (reads w1)) - clock w1 (reads w1))"
    using ne dims shapes by (simp add: get_rand_features_GPU_numpy)
  have nr: "nrows (hstack ?outs) = nrows X"
    using ne by (simp add: hstack_sel hd_map squared_abs_def map_entries_def matmul_def)
  have "ncols (hstack ?outs) = sum_list (map (\<lambda>_. nat ?q) [0..<nat n_ram])"
    by (simp add: hstack_sel squared_abs_def map_entries_def matmul_def block_at_shape comp_def)
  then have nc': "ncols (hstack ?outs) = nat n_ram * nat ?q"
    by (simp add: sum_list_const)
  have "fst (gpu_pipeline numpy nc nf n_ram X w) = fst (get_rand_features_GPU numpy ?R X w1)"
    by (simp add: gpu_pipeline_def run_then_do gen)
  then show ?thesis
    by (simp only: run shape_of_def nr nc' map_sum.simps id_apply prod.case)
qed

text \<open>
  C2, at \<open>n_components = 15\<close> with the default \<open>n_ram = 10\<close>: each of the ten blocks has
  \<open>15 // 10 = 1\<close> column, and the projected matrix has 10 columns, not 15.
\<close>

theorem gpu_pipeline_drops_remainder_columns:
  "shape_of (fst (gpu_pipeline numpy 15 1 10 (array 1 1 [[1]]) example_world)) = Inr (1, 10)"
  using gpu_pipeline_shape [of 10 15 1 "array 1 1 [[1]]" example_world]
  by (simp add: array_def)

lemma block_at_entry:
  assumes "i < nat nf" "j < nat q"
  shows "rows (block_at w True nc nf q k) ! i ! j =
     draws w (used w + k * (nat nf * nat q) + i * nat q + j) / sqrt (real_of_int nc)"
  using assms by (simp add: block_at_def normalized_def map_entries_def drawn_block_def)

text \<open>
  C8. With \<open>normalize=True\<close>, \<open>generate_RM\<close> returns for every positive \<open>n_ram\<close> and
  non-negative sizes, and whenever it returns, there are \<open>n_ram\<close> blocks of shape
  \<open>(n_features, n_components // n_ram)\<close> and every entry of every block is a draw of the
  generator divided by \<open>sqrt(n_components)\<close>: the divisor does not depend on
  \<open>n_features\<close>.
\<close>

theorem generate_RM_divides_by_sqrt_n_components:
  "(0 < n_ram \<and> 0 \<le> nf \<and> 0 \<le> nc \<longrightarrow>
      (\<exists>R t. fst (generate_RM numpy nc nf n_ram True w) = Inr (R, t)))
   \<and> (\<forall>R t. fst (generate_RM numpy nc nf n_ram True w) = Inr (R, t) \<longrightarrow>
        length R = nat n_ram \<and>
        (\<forall>k<length R.
           nrows (R ! k) = nat nf \<and> ncols (R ! k) = nat (nc div n_ram) \<and>
           (\<forall>i<nat nf. \<forall>j<nat (nc div n_ram).
              rows (R ! k) ! i ! j =
                draws w (used w + k * (nat nf * nat (nc div n_ram)) + i * nat (nc div n_ram) + j)
                  / sqrt (real_of_int nc))))"
proof -
  have returns: "\<exists>R t. fst (generate_RM numpy nc nf n_ram True w) = Inr (R, t)"
    if "0 < n_ram \<and> 0 \<le> nf \<and> 0 \<le> nc"
  proof -
    from that have "0 < n_ram" "0 \<le> nf" "0 \<le> nc div n_ram"
      by (simp_all add: pos_imp_zdiv_nonneg_iff)
    then show ?thesis
      by (simp add: generate_RM_numpy)
  qed
  have entries: "length R = nat n_ram \<and>
        (\<forall>k<length R.
           nrows (R ! k) = nat nf \<and> ncols (R ! k) = nat (nc div n_ram) \<and>
           (\<forall>i<nat nf. \<forall>j<nat (nc div n_ram).
              rows (R ! k) ! i ! j =
                draws w (used w + k * (nat nf * nat (nc div n_ram)) + i * nat (nc div n_ram) + j)
                  / sqrt (real_of_int nc)))"
    if ret: "fst (generate_RM numpy nc nf n_ram True w) = Inr (R, t)" for R t
  proof -
    from ret have R: "R = map (block_at w True nc nf (nc div n_ram)) [0..<nat n_ram]"
      by (simp add: generate_RM_numpy split: if_splits)
    show ?thesis
      by (simp add: R block_at_shape block_at_entry)
  qed
  from returns entries show ?thesis
    by blast
qed

text \<open>C8, at \<open>n_components = 4\<close>, \<open>n_features = 1\<close>, \<open>n_ram = 2\<close>: the fourth draw, 4, is
  returned as \<open>4 / sqrt 4 = 2\<close>.\<close>

theorem generate_RM_divides_by_sqrt_n_components_witness:
  "\<exists>R t. fst (generate_RM numpy 4 1 2 True example_world) = Inr (R, t)
     \<and> length R = 2 \<and> nrows (R ! 1) = 1 \<and> ncols (R ! 1) = 2 \<and> rows (R ! 1) ! 0 ! 1 = 2"
proof -
  note spec = generate_RM_divides_by_sqrt_n_components [of 2 1 4 example_world]
  from spec obtain R t where ret: "fst (generate_RM numpy 4 1 2 True example_world) = Inr (R, t)"
    by auto
  with spec have len: "length R = 2"
    and blocks: "\<forall>k<length R.
       nrows (R ! k) = nat 1 \<and> ncols (R ! k) = nat (4 div 2) \<and>
       (\<forall>i<nat 1. \<forall>j<nat (4 div 2).
          rows (R ! k) ! i ! j =
            draws example_world (used example_world + k * (nat 1 * nat (4 div 2)) + i * nat (4 div 2) + j)
              / sqrt (real_of_int 4))"
    by auto
  have "1 < length R"
    using len by simp
  note block1 = blocks [rule_format, OF this]
  then have "\<forall>i<nat 1. \<forall>j<nat (4 div 2).
          rows (R ! 1) ! i ! j =
            draws example_world (used example_world + 1 * (nat 1 * nat (4 div 2)) + i * nat (4 div 2) + j)
              / sqrt (real_of_int 4)"
    by blast
  note entry = this [rule_format, of 0 1]
  from block1 entry have "nrows (R ! 1) = 1 \<and> ncols (R ! 1) = 2 \<and> rows (R ! 1) ! 0 ! 1 = 2"
    by (simp add: example_world_def)
  with ret len show ?thesis
    by blast
qed

lemma window_index:
  assumes "k < K" "i < r" "j < (c::nat)"
  shows "k * (r * c) + i * c + j < K * (r * c)"
proof -
  have "i * c + j < Suc i * c"
    using assms(3) by simp
  also have "\<dots> \<le> r * c"
    using assms(2) by (intro mult_le_mono1) simp
  finally have "k * (r * c) + (i * c + j) < Suc k * (r * c)"
    by simp
  also have "\<dots> \<le> K * (r * c)"
    using assms(1) by (intro mult_le_mono1) simp
  finally show ?thesis
    by (simp add: add.assoc)
qed

lemma block_at_cong:
  assumes "\<forall>n<K * (nat nf * nat q). draws w (used w + n) = draws w' (used w' + n)" "k < K"
  shows "block_at w b nc nf q k = block_at w' b nc nf q k"
proof -
  have "draws w (used w + k * (nat nf * nat q) + i * nat q + j)
      = draws w' (used w' + k * (nat nf * nat q) + i * nat q + j)"
    if "i < nat nf" "j < nat q" for i j
    using assms(1) [rule_format, OF window_index [OF assms(2) that]]
    by (simp add: add.assoc)
  then have "drawn_block (draws w) (used w + k * (nat nf * nat q)) (nat nf) (nat q)
      = drawn_block (draws w') (used w' + k * (nat nf * nat q)) (nat nf) (nat q)"
    by (simp add: drawn_block_def)
  then show ?thesis
    by (simp add: block_at_def)
qed

section \<open>The binary encoding and the double descent loop\<close>

lemma uniform_sampling_value:
  "uniform_sampling = [2000, 2500, 3000, 3500, 4000, 4500, 5000, 5500, 6000, 6500, 7000, 7500, 8000,
     8500, 9000, 9500, 10000, 10500, 11000, 11500, 12000, 12500,
     13000, 13500, 14000, 14500, 15000, 15500, 16000, 16500, 17000, 17500, 18000, 18500,
     19000, 19500, 20000]"
  by (simp add: uniform_sampling_def upt_conv_Cons)


lemma rps_list_value:
  "rps_list = [2000, 2500, 3000, 3500, 4000, 4500, 5000, 5500, 6000, 6500, 7000, 7500, 8000,
     8500, 9000, 9250, 9500, 9750, 10000, 10250, 10500, 10750, 11000, 11500, 12000, 12500,
     13000, 13500, 14000, 14500, 15000, 15500, 16000, 16500, 17000, 17500, 18000, 18500,
     19000, 19500, 20000]"
  by (simp add: rps_list_def uniform_sampling_value interpolation_point_sampling_def)

lemma max_rps_value: "max_rps = 20000"
  by (simp add: max_rps_def rps_list_value)

lemma rps_list_ascending: "sorted rps_list \<and> distinct rps_list"
  by (simp add: rps_list_value)

lemma run_record_call: "record_call c x calls = (Inr x, calls @ [c])"
  by (simp add: record_call_def)

lemma recording_fields:
  "OPU (recording device unfitted fitted scored) = (\<lambda>n. record_call (Made_OPU n) n)"
  "opu_enter (recording device unfitted fitted scored) = (\<lambda>opu. record_call Entered ())"
  "opu_exit (recording device unfitted fitted scored) = (\<lambda>opu. record_call Left ())"
  "tensor_int (recording device unfitted fitted scored) = (\<lambda>A. ret (map_entries to_int32 A))"
  "transform1d (recording device unfitted fitted scored) = (\<lambda>opu A. record_call (Transformed A) (device opu A))"
  "np_zeros_1d (recording device unfitted fitted scored) = (\<lambda>n. ret (replicate n 0))"
  "RidgeClassifier (recording device unfitted fitted scored) = ret unfitted"
  "fit (recording device unfitted fitted scored) = (\<lambda>clf A y. record_call (Fitted A y) (fitted clf A y))"
  "score (recording device unfitted fitted scored) = (\<lambda>clf A y. record_call (Scored A y) (scored clf A y))"
  by (simp_all add: recording_def)

lemma double_descent_loop_calls:
  "\<exists>acc'. for_loop ps (double_descent_body (recording device unfitted fitted scored) A y B z) acc calls
      = (Inr acc', calls @ concat (map (\<lambda>(i, rp). calls_of_model A y B z rp) ps))"
proof (induction ps arbitrary: acc calls)
  case Nil
  show ?case by (simp add: run_ret)
next
  case (Cons p ps)
  obtain i rp where p: "p = (i, rp)" by (cases p)
  obtain ta te where acc: "acc = (ta, te)" by (cases acc)
  obtain acc1 where step: "double_descent_body (recording device unfitted fitted scored) A y B z (i, rp) acc calls
      = (Inr acc1, calls @ calls_of_model A y B z rp)"
    by (simp add: double_descent_body_def acc recording_fields run_then_do run_ret
        run_record_call calls_of_model_def)
  from Cons.IH [of acc1 "calls @ calls_of_model A y B z rp"] obtain acc' where
    "for_loop ps (double_descent_body (recording device unfitted fitted scored) A y B z) acc1
        (calls @ calls_of_model A y B z rp)
      = (Inr acc', (calls @ calls_of_model A y B z rp) @ concat (map (\<lambda>(i, rp). calls_of_model A y B z rp) ps))"
    by blast
  then show ?case
    by (simp add: run_then_do step p)
qed

lemma map_snd_enumerate: "map snd (enumerate_from0 xs) = xs"
  by (simp add: enumerate_from0_def)

lemma concat_map_case_snd: "concat (map (\<lambda>(i, x). f x) ps) = concat (map f (map snd ps))"
  by (induction ps) auto

lemma double_descent_calls:
  "snd (double_descent (recording device unfitted fitted scored) X_train y_train X_test y_test [])
     = [Made_OPU max_rps, Entered, Transformed (map_entries to_int32 X_train),
        Transformed (map_entries to_int32 X_test), Left]
       @ concat (map (calls_of_model (device max_rps (map_entries to_int32 X_train)) y_train
                        (device max_rps (map_entries to_int32 X_test)) y_test) rps_list)"
proof -
  let ?A = "device max_rps (map_entries to_int32 X_train)"
  let ?B = "device max_rps (map_entries to_int32 X_test)"
  let ?pre = "[Made_OPU max_rps, Entered, Transformed (map_entries to_int32 X_train),
        Transformed (map_entries to_int32 X_test), Left]"
  obtain acc' where loop: "for_loop (enumerate_from0 rps_list)
        (double_descent_body (recording device unfitted fitted scored) ?A y_train ?B y_test)
        (replicate (length rps_list) (0::real), replicate (length rps_list) (0::real)) ?pre
      = (Inr acc', ?pre @ concat (map (\<lambda>(i, rp). calls_of_model ?A y_train ?B y_test rp)
           (enumerate_from0 rps_list)))"
    using double_descent_loop_calls
      [where ps = "enumerate_from0 rps_list" and calls = ?pre and A = ?A and B = ?B
         and y = y_train and z = y_test and device = device and unfitted = unfitted
         and fitted = fitted and scored = scored
         and acc = "(replicate (length rps_list) 0, replicate (length rps_list) 0)"]
    by (elim exE)
  have "double_descent (recording device unfitted fitted scored) X_train y_train X_test y_test []
      = for_loop (enumerate_from0 rps_list)
        (double_descent_body (recording device unfitted fitted scored) ?A y_train ?B y_test)
        (replicate (length rps_list) (0::real), replicate (length rps_list) (0::real)) ?pre"
    by (simp add: double_descent_def with_do_def recording_fields run_then_do run_ret
        run_record_call)
  then show ?thesis
    by (simp only: loop snd_conv concat_map_case_snd map_snd_enumerate)
qed

lemma jl_recording_fields:
  "Pkg_add (jl_recording device) = (\<lambda>name. record_call (Added name) ())"
  "pyimport (jl_recording device) = (\<lambda>name. record_call (Imported name) name)"
  "np_random_randint (jl_recording device) = (\<lambda>np lo hi size dt.
         record_call (Drew np lo hi \<lparr>dtype = dt, dims = size\<rparr>) \<lparr>dtype = dt, dims = size\<rparr>)"
  "lgopu_OPU (jl_recording device) = (\<lambda>lgopu n. record_call (Opened lgopu n) n)"
  "opu_transform1d (jl_recording device) = (\<lambda>opu x. record_call (Transformed1d opu x) (device opu x))"
  "typeof (jl_recording device) = (\<lambda>y. ret (type_name y))"
  "ndims (jl_recording device) = (\<lambda>y. ret (n_dims y))"
  "minimum (jl_recording device) = (\<lambda>y. ret (least y))"
  "maximum (jl_recording device) = (\<lambda>y. ret (greatest y))"
  "println (jl_recording device) = (\<lambda>vs. record_call (Printed vs) ())"
  by (simp_all add: jl_recording_def)

text \<open>
  C7. Whatever the device returns, the script draws a uint8 array of shape
  \<open>(3000, 912 * 1140)\<close> with NumPy, opens an OPU of 10000 components, calls
  \<open>transform1d\<close> on the array (twice: the plain call, then the same call through
  \<open>@pycall\<close>), and prints three lines: the type of the returned array, its number of
  dimensions, and its minimum and maximum separated by a blank.
\<close>

theorem julia_script_calls_and_prints:
  "julia_opu (jl_recording device) [] =
     (Inr (),
      [Added ''PyCall'', Imported ''lightonopu'', Imported ''numpy'',
       Drew ''numpy'' 0 2 \<lparr>dtype = ''uint8'', dims = (3000, 1039680)\<rparr>,
       Opened ''lightonopu'' 10000,
       Transformed1d 10000 \<lparr>dtype = ''uint8'', dims = (3000, 1039680)\<rparr>,
       Transformed1d 10000 \<lparr>dtype = ''uint8'', dims = (3000, 1039680)\<rparr>,
       Printed [Type_name (type_name (device 10000 \<lparr>dtype = ''uint8'', dims = (3000, 1039680)\<rparr>))],
       Printed [Number (n_dims (device 10000 \<lparr>dtype = ''uint8'', dims = (3000, 1039680)\<rparr>))],
       Printed [Number (least (device 10000 \<lparr>dtype = ''uint8'', dims = (3000, 1039680)\<rparr>)),
                Text '' '',
                Number (greatest (device 10000 \<lparr>dtype = ''uint8'', dims = (3000, 1039680)\<rparr>))]])"
  by (simp add: julia_opu_def jl_recording_fields run_then_do run_ret run_record_call)

text \<open>C7, for a device that returns a two-dimensional array of bytes between 0 and 255.\<close>

theorem julia_script_calls_and_prints_witness:
  "snd (julia_opu (jl_recording
          (\<lambda>n x. \<lparr>type_name = ''Array{UInt8,2}'', n_dims = 2, least = 0, greatest = 255\<rparr>)) [])
     = [Added ''PyCall'', Imported ''lightonopu'', Imported ''numpy'',
        Drew ''numpy'' 0 2 \<lparr>dtype = ''uint8'', dims = (3000, 1039680)\<rparr>,
        Opened ''lightonopu'' 10000,
        Transformed1d 10000 \<lparr>dtype = ''uint8'', dims = (3000, 1039680)\<rparr>,
        Transformed1d 10000 \<lparr>dtype = ''uint8'', dims = (3000, 1039680)\<rparr>,
        Printed [Type_name ''Array{UInt8,2}''], Printed [Number 2],
        Printed [Number 0, Text '' '', Number 255]]"
  using julia_script_calls_and_prints
    [of "\<lambda>n x. \<lparr>type_name = ''Array{UInt8,2}'', n_dims = 2, least = 0, greatest = 255\<rparr>"]
  by simp

section \<open>Exceptions of the libraries\<close>

lemma propagates_InlD:
  assumes "propagates n m" and "m (w, raised) = (Inl e, (w', raised'))"
  shows "\<exists>before. raised' = raised @ before @ [e] \<and> length before \<le> n"
  using assms(1) [unfolded propagates_def, rule_format, where w = w and raised = raised] assms(2) by simp

lemma propagates_InrD:
  assumes "propagates n m" and "m (w, raised) = (Inr x, (w', raised'))"
  shows "raised' = raised"
  using assms(1) [unfolded propagates_def, rule_format, where w = w and raised = raised] assms(2) by simp

lemma propagatesI:
  assumes "\<And>w raised e w' raised'. m (w, raised) = (Inl e, (w', raised')) \<Longrightarrow>
             \<exists>before. raised' = raised @ before @ [e] \<and> length before \<le> n"
    and "\<And>w raised x w' raised'. m (w, raised) = (Inr x, (w', raised')) \<Longrightarrow> raised' = raised"
  shows "propagates n m"
  unfolding propagates_def
proof (intro allI)
  fix w raised
  obtain r w' raised' where run: "m (w, raised) = (r, (w', raised'))"
    by (metis surj_pair)
  show "case m (w, raised) of
          (Inl e, (w', raised')) \<Rightarrow> \<exists>before. raised' = raised @ before @ [e] \<and> length before \<le> n
        | (Inr x, (w', raised')) \<Rightarrow> raised' = raised"
    using assms(1) [of w raised _ w' raised'] assms(2) [of w raised _ w' raised'] run
    by (cases r) simp_all
qed

lemma propagates_traced: "propagates 0 (traced m)"
  by (rule propagatesI) (auto simp: traced_def split: prod.splits sum.splits)

lemma propagates_ret: "propagates n (ret x)"
  by (rule propagatesI) (simp_all add: ret_def)

lemma propagates_mono:
  assumes "propagates n m" and "n \<le> k"
  shows "propagates k m"
proof (rule propagatesI)
  fix w raised e w' raised'
  assume "m (w, raised) = (Inl e, (w', raised'))"
  from propagates_InlD [OF assms(1) this] obtain before
    where "raised' = raised @ before @ [e]" "length before \<le> n"
    by blast
  with assms(2) have "raised' = raised @ before @ [e] \<and> length before \<le> k"
    by simp
  then show "\<exists>before. raised' = raised @ before @ [e] \<and> length before \<le> k" ..
next
  fix w raised x w' raised'
  assume "m (w, raised) = (Inr x, (w', raised'))"
  from propagates_InrD [OF assms(1) this] show "raised' = raised" .
qed

lemma then_do_cases:
  assumes "then_do m f s = (r, s')"
  obtains e where "m s = (Inl e, s')" "r = Inl e"
  | x s1 where "m s = (Inr x, s1)" "f x s1 = (r, s')"
proof (cases "m s")
  case (Pair r1 s1)
  then show ?thesis
    using assms that by (cases r1) (simp_all add: then_do_def)
qed

lemma propagates_then_do:
  assumes "propagates n m" and "\<And>x. propagates n (f x)"
  shows "propagates n (then_do m f)"
proof (rule propagatesI)
  fix w raised e w' raised'
  assume "then_do m f (w, raised) = (Inl e, (w', raised'))"
  then show "\<exists>before. raised' = raised @ before @ [e] \<and> length before \<le> n"
  proof (cases rule: then_do_cases)
    case (1 e')
    then show ?thesis
      using propagates_InlD [OF assms(1)] by simp
  next
    case (2 x s1)
    obtain w1 raised1 where s1: "s1 = (w1, raised1)" by (cases s1)
    with 2 have "raised1 = raised"
      using propagates_InrD [OF assms(1)] by simp
    with 2 s1 show ?thesis
      using propagates_InlD [OF assms(2)] by simp
  qed
next
  fix w raised x w' raised'
  assume "then_do m f (w, raised) = (Inr x, (w', raised'))"
  then show "raised' = raised"
  proof (cases rule: then_do_cases)
    case (1 e')
    then show ?thesis by simp
  next
    case (2 y s1)
    obtain w1 raised1 where s1: "s1 = (w1, raised1)" by (cases s1)
    with 2 have "raised1 = raised"
      using propagates_InrD [OF assms(1)] by simp
    with 2 s1 show ?thesis
      using propagates_InrD [OF assms(2)] by simp
  qed
qed

lemma propagates_for_loop:
  assumes "\<And>x s. propagates n (body x s)"
  shows "propagates n (for_loop xs body s)"
  by (induction xs arbitrary: s) (simp_all add: propagates_ret propagates_then_do assms)

lemma propagates_then_do_post:
  assumes "propagates n m"
    and "\<And>s x s'. m s = (Inr x, s') \<Longrightarrow> P x"
    and "\<And>x. P x \<Longrightarrow> propagates n (f x)"
  shows "propagates n (then_do m f)"
proof (rule propagatesI)
  fix w raised e w' raised'
  assume "then_do m f (w, raised) = (Inl e, (w', raised'))"
  then show "\<exists>before. raised' = raised @ before @ [e] \<and> length before \<le> n"
  proof (cases rule: then_do_cases)
    case (1 e')
    then show ?thesis
      using propagates_InlD [OF assms(1)] by simp
  next
    case (2 x s1)
    obtain w1 raised1 where s1: "s1 = (w1, raised1)" by (cases s1)
    with 2 have "raised1 = raised"
      using propagates_InrD [OF assms(1)] by simp
    with 2 s1 show ?thesis
      using propagates_InlD [OF assms(3) [OF assms(2) [OF 2(1)]]] by simp
  qed
next
  fix w raised x w' raised'
  assume "then_do m f (w, raised) = (Inr x, (w', raised'))"
  then show "raised' = raised"
  proof (cases rule: then_do_cases)
    case (1 e')
    then show ?thesis by simp
  next
    case (2 y s1)
    obtain w1 raised1 where s1: "s1 = (w1, raised1)" by (cases s1)
    with 2 have "raised1 = raised"
      using propagates_InrD [OF assms(1)] by simp
    with 2 s1 show ?thesis
      using propagates_InrD [OF assms(3) [OF assms(2) [OF 2(1)]]] by simp
  qed
qed

lemma propagates_for_loop_set:
  assumes "\<And>x s. x \<in> set xs \<Longrightarrow> propagates n (body x s)"
  shows "propagates n (for_loop xs body s)"
  using assms
  by (induction xs arbitrary: s) (simp_all add: propagates_ret propagates_then_do)

lemma propagates_case_prod:
  "(\<And>a b. propagates n (f a b)) \<Longrightarrow> propagates n (case p of (a, b) \<Rightarrow> f a b)"
  by (cases p) simp

lemma with_do_cases:
  assumes "with_do enter leave body s = (r, s')"
  obtains e where "enter s = (Inl e, s')" "r = Inl e"
  | s1 e s2 where "enter s = (Inr (), s1)" "body s1 = (Inl e, s2)" "leave s2 = (Inr (), s')" "r = Inl e"
  | s1 e s2 e' where "enter s = (Inr (), s1)" "body s1 = (Inl e, s2)" "leave s2 = (Inl e', s')" "r = Inl e'"
  | s1 x s2 where "enter s = (Inr (), s1)" "body s1 = (Inr x, s2)" "leave s2 = (Inr (), s')" "r = Inr x"
  | s1 x s2 e' where "enter s = (Inr (), s1)" "body s1 = (Inr x, s2)" "leave s2 = (Inl e', s')" "r = Inl e'"
  using assms
  by (auto simp: with_do_def then_do_def split: prod.splits sum.splits)

lemma propagates_with_do:
  assumes enter: "propagates 0 enter" and leave: "propagates 0 leave" and body: "propagates 0 body"
  shows "propagates 1 (with_do enter leave body)"
proof (rule propagatesI)
  fix w raised e w' raised'
  assume "with_do enter leave body (w, raised) = (Inl e, (w', raised'))"
  then show "\<exists>before. raised' = raised @ before @ [e] \<and> length before \<le> 1"
  proof (cases rule: with_do_cases)
    case (1 e0)
    with propagates_InlD [OF enter, of w raised e0 w' raised'] show ?thesis
      by auto
  next
    case (2 s1 e0 s2)
    obtain w1 r1 where s1: "s1 = (w1, r1)" by (cases s1)
    obtain w2 r2 where s2: "s2 = (w2, r2)" by (cases s2)
    from 2 s1 have "r1 = raised"
      using propagates_InrD [OF enter] by simp
    moreover from 2 s1 s2 have "\<exists>before. r2 = r1 @ before @ [e0] \<and> length before \<le> 0"
      using propagates_InlD [OF body] by simp
    moreover from 2 s2 have "raised' = r2"
      using propagates_InrD [OF leave] by simp
    ultimately show ?thesis
      using 2 by auto
  next
    case (3 s1 e0 s2 e1)
    obtain w1 r1 where s1: "s1 = (w1, r1)" by (cases s1)
    obtain w2 r2 where s2: "s2 = (w2, r2)" by (cases s2)
    from 3 s1 have "r1 = raised"
      using propagates_InrD [OF enter] by simp
    moreover from 3 s1 s2 have "\<exists>before. r2 = r1 @ before @ [e0] \<and> length before \<le> 0"
      using propagates_InlD [OF body] by simp
    moreover from 3 s2 have "\<exists>before. raised' = r2 @ before @ [e1] \<and> length before \<le> 0"
      using propagates_InlD [OF leave] by simp
    ultimately have "raised' = raised @ [e0] @ [e] \<and> length [e0] \<le> 1"
      using 3 by auto
    then show ?thesis
      by blast
  next
    case (4 s1 x s2)
    then show ?thesis by simp
  next
    case (5 s1 x s2 e1)
    obtain w1 r1 where s1: "s1 = (w1, r1)" by (cases s1)
    obtain w2 r2 where s2: "s2 = (w2, r2)" by (cases s2)
    from 5 s1 have "r1 = raised"
      using propagates_InrD [OF enter] by simp
    moreover from 5 s1 s2 have "r2 = r1"
      using propagates_InrD [OF body] by simp
    moreover from 5 s2 have "\<exists>before. raised' = r2 @ before @ [e1] \<and> length before \<le> 0"
      using propagates_InlD [OF leave] by simp
    ultimately show ?thesis
      using 5 by auto
  qed
next
  fix w raised x w' raised'
  assume "with_do enter leave body (w, raised) = (Inr x, (w', raised'))"
  then show "raised' = raised"
  proof (cases rule: with_do_cases)
    case (4 s1 y s2)
    obtain w1 r1 where s1: "s1 = (w1, r1)" by (cases s1)
    obtain w2 r2 where s2: "s2 = (w2, r2)" by (cases s2)
    from 4 s1 have "r1 = raised"
      using propagates_InrD [OF enter] by simp
    moreover from 4 s1 s2 have "r2 = r1"
      using propagates_InrD [OF body] by simp
    moreover from 4 s2 have "raised' = r2"
      using propagates_InrD [OF leave] by simp
    ultimately show ?thesis
      by simp
  qed simp_all
qed

lemma traced_pylib_fields:
  "time (traced_pylib L) = traced (time L)"
  "py_floordiv (traced_pylib L) = (\<lambda>a b. traced (py_floordiv L a b))"
  "print (traced_pylib L) = (\<lambda>s i. traced (print L s i))"
  "np_zeros (traced_pylib L) = (\<lambda>sh. traced (np_zeros L sh))"
  "np_random_randn (traced_pylib L) = (\<lambda>r c. traced (np_random_randn L r c))"
  "setitem_all (traced_pylib L) = (\<lambda>A B. traced (setitem_all L A B))"
  "np_sqrt (traced_pylib L) = (\<lambda>n. traced (np_sqrt L n))"
  "itruediv (traced_pylib L) = (\<lambda>A s. traced (itruediv L A s))"
  "cp_asarray (traced_pylib L) = (\<lambda>A. traced (cp_asarray L A))"
  "cp_dot (traced_pylib L) = (\<lambda>A B. traced (cp_dot L A B))"
  "cp_abs (traced_pylib L) = (\<lambda>A. traced (cp_abs L A))"
  "cp_pow (traced_pylib L) = (\<lambda>A k. traced (cp_pow L A k))"
  "cp_asnumpy (traced_pylib L) = (\<lambda>A. traced (cp_asnumpy L A))"
  "cp_asnumpy_seq (traced_pylib L) = (\<lambda>As. traced (cp_asnumpy_seq L As))"
  "np_concatenate (traced_pylib L) = (\<lambda>As axis. traced (np_concatenate L As axis))"
  by (simp_all add: traced_pylib_def)

lemma traced_torchlib_fields:
  "time (traced_torchlib T) = traced (time T)"
  "len_dataset (traced_torchlib T) = (\<lambda>ld. traced (len_dataset T ld))"
  "get_batch_size (traced_torchlib T) = (\<lambda>ld. traced (get_batch_size T ld))"
  "torch_FloatTensor (traced_torchlib T) = (\<lambda>n m. traced (torch_FloatTensor T n m))"
  "tensor_to (traced_torchlib T) = (\<lambda>A d. traced (tensor_to T A d))"
  "np_empty (traced_torchlib T) = (\<lambda>n. traced (np_empty T n))"
  "model_eval (traced_torchlib T) = (\<lambda>md. traced (model_eval T md))"
  "cuda_synchronize (traced_torchlib T) = traced (cuda_synchronize T)"
  "no_grad_enter (traced_torchlib T) = traced (no_grad_enter T)"
  "no_grad_exit (traced_torchlib T) = traced (no_grad_exit T)"
  "iter_loader (traced_torchlib T) =
     (\<lambda>ld. then_do (traced (iter_loader T ld)) (\<lambda>fetches. ret (map traced fetches)))"
  "images_to (traced_torchlib T) = (\<lambda>imgs d. traced (images_to T imgs d))"
  "model_call (traced_torchlib T) = (\<lambda>md imgs. traced (model_call T md imgs))"
  "data_view (traced_torchlib T) = (\<lambda>outs k. traced (data_view T outs k))"
  "setitem_rows (traced_torchlib T) = (\<lambda>A a b V. traced (setitem_rows T A a b V))"
  "targets_numpy (traced_torchlib T) = (\<lambda>ts. traced (targets_numpy T ts))"
  "setitem_slice (traced_torchlib T) = (\<lambda>ls a b ts. traced (setitem_slice T ls a b ts))"
  "tensor_gt (traced_torchlib T) = (\<lambda>A c. traced (tensor_gt T A c))"
  "tensor_cpu (traced_torchlib T) = (\<lambda>A. traced (tensor_cpu T A))"
  by (simp_all add: traced_torchlib_def)

lemma traced_opulib_fields:
  "time (traced_opulib U) = traced (time U)"
  "OPUMap (traced_opulib U) = (\<lambda>n. traced (OPUMap U n))"
  "opu_transform (traced_opulib U) = (\<lambda>opu X. traced (opu_transform U opu X))"
  "tensor_type_float (traced_opulib U) = (\<lambda>rf. traced (tensor_type_float U rf))"
  by (simp_all add: traced_opulib_def)

lemmas propagates_intros =
  propagates_then_do propagates_for_loop propagates_traced propagates_ret propagates_case_prod

lemma generate_RM_propagates:
  "propagates 0 (generate_RM (traced_pylib L) n_components n_features n_ram do_normalize)"
  unfolding generate_RM_def generate_RM_body_def traced_pylib_fields
  by (intro propagates_intros) (auto intro!: propagates_intros)

lemma compute_dot_split_propagates:
  "propagates 0 (compute_dot_split (traced_pylib L) x random_matrix)"
  unfolding compute_dot_split_def traced_pylib_fields
  by (intro propagates_intros)

lemma get_rand_features_GPU_propagates:
  "propagates 0 (get_rand_features_GPU (traced_pylib L) R X)"
  unfolding get_rand_features_GPU_def traced_pylib_fields [symmetric]
  by (intro propagates_intros compute_dot_split_propagates)
     (simp_all add: traced_pylib_fields propagates_traced)

lemma get_random_features_propagates:
  "propagates 0 (get_random_features (traced_opulib U) X n_components)"
  unfolding get_random_features_def traced_opulib_fields Let_def
  by (intro propagates_intros)

lemma get_conv_features_body_propagates:
  "propagates 0 (get_conv_features_body (traced_torchlib T) model device bs (i, traced f) acc)"
  unfolding get_conv_features_body_def traced_torchlib_fields
  by (cases acc) (auto intro!: propagates_intros)

lemma iter_loader_traced_post:
  assumes "iter_loader (traced_torchlib T) ld s = (Inr fetches, s')"
  shows "\<exists>fs. fetches = map traced fs"
  using assms unfolding traced_torchlib_fields
  by (cases rule: then_do_cases) (auto simp: ret_def)

lemma enumerate_traced:
  assumes "p \<in> set (enumerate_from0 (map traced fs))"
  obtains i f where "p = (i, traced f)"
  using assms by (auto simp: enumerate_from0_def set_zip)

lemma iter_loader_propagates: "propagates 0 (iter_loader (traced_torchlib T) ld)"
  unfolding traced_torchlib_fields by (intro propagates_intros)

lemma propagates_traced_1: "propagates 1 (traced m)"
  by (rule propagates_mono [OF propagates_traced]) simp

lemma get_conv_features_propagates:
  "propagates 1 (get_conv_features (traced_torchlib T) loader model out_shape device)"
proof -
  have loop: "propagates 0 (for_loop (enumerate_from0 (map traced fs))
      (get_conv_features_body (traced_torchlib T) model device bs) acc)" for fs bs acc
  proof (rule propagates_for_loop_set)
    fix p s
    assume "p \<in> set (enumerate_from0 (map traced fs))"
    then obtain i f where "p = (i, traced f)"
      by (rule enumerate_traced)
    then show "propagates 0 (get_conv_features_body (traced_torchlib T) model device bs p s)"
      by (simp add: get_conv_features_body_propagates)
  qed
  have rest: "propagates 0 (case acc of (conv_features, labels) \<Rightarrow>
        then_do (cuda_synchronize (traced_torchlib T)) (\<lambda>_.
        then_do (time (traced_torchlib T)) (\<lambda>now.
        let conv_time = now - t0 in
        then_do (cuda_synchronize (traced_torchlib T)) (\<lambda>_.
        then_do (time (traced_torchlib T)) (\<lambda>start.
        then_do (tensor_gt (traced_torchlib T) conv_features 0) (\<lambda>conv_features.
        then_do (cuda_synchronize (traced_torchlib T)) (\<lambda>_.
        then_do (time (traced_torchlib T)) (\<lambda>now.
        let encode_time = now - start in
        then_do (tensor_cpu (traced_torchlib T) conv_features) (\<lambda>conv_features.
        ret (conv_features, labels, conv_time, encode_time))))))))))" for acc t0
    unfolding traced_torchlib_fields Let_def
    by (intro propagates_intros)
  have inside: "propagates 0
       (then_do (iter_loader (traced_torchlib T) loader) (\<lambda>fetches.
        then_do (for_loop (enumerate_from0 fetches)
                   (get_conv_features_body (traced_torchlib T) model device bs)
                   acc) (\<lambda>(conv_features, labels).
        then_do (cuda_synchronize (traced_torchlib T)) (\<lambda>_.
        then_do (time (traced_torchlib T)) (\<lambda>now.
        let conv_time = now - t0 in
        then_do (cuda_synchronize (traced_torchlib T)) (\<lambda>_.
        then_do (time (traced_torchlib T)) (\<lambda>start.
        then_do (tensor_gt (traced_torchlib T) conv_features 0) (\<lambda>conv_features.
        then_do (cuda_synchronize (traced_torchlib T)) (\<lambda>_.
        then_do (time (traced_torchlib T)) (\<lambda>now.
        let encode_time = now - start in
        then_do (tensor_cpu (traced_torchlib T) conv_features) (\<lambda>conv_features.
        ret (conv_features, labels, conv_time, encode_time))))))))))))" for bs acc t0
  proof (rule propagates_then_do_post [where P = "\<lambda>fetches. \<exists>fs. fetches = map traced fs"])
    show "propagates 0 (iter_loader (traced_torchlib T) loader)"
      by (rule iter_loader_propagates)
  next
    fix s x s'
    assume "iter_loader (traced_torchlib T) loader s = (Inr x, s')"
    then show "\<exists>fs. x = map traced fs"
      by (rule iter_loader_traced_post)
  next
    fix x :: "('a \<times> 'b list, 'b, 'e list \<times> int list) prog list"
    assume "\<exists>fs. x = map traced fs"
    then obtain fs where x: "x = map traced fs" ..
    show "propagates 0
       (then_do (for_loop (enumerate_from0 x)
                   (get_conv_features_body (traced_torchlib T) model device bs)
                   acc) (\<lambda>(conv_features, labels).
        then_do (cuda_synchronize (traced_torchlib T)) (\<lambda>_.
        then_do (time (traced_torchlib T)) (\<lambda>now.
        let conv_time = now - t0 in
        then_do (cuda_synchronize (traced_torchlib T)) (\<lambda>_.
        then_do (time (traced_torchlib T)) (\<lambda>start.
        then_do (tensor_gt (traced_torchlib T) conv_features 0) (\<lambda>conv_features.
        then_do (cuda_synchronize (traced_torchlib T)) (\<lambda>_.
        then_do (time (traced_torchlib T)) (\<lambda>now.
        let encode_time = now - start in
        then_do (tensor_cpu (traced_torchlib T) conv_features) (\<lambda>conv_features.
        ret (conv_features, labels, conv_time, encode_time)))))))))))"
      unfolding x by (rule propagates_then_do [OF loop rest])
  qed
  have block: "propagates 1 (with_do (no_grad_enter (traced_torchlib T)) (no_grad_exit (traced_torchlib T))
       (then_do (iter_loader (traced_torchlib T) loader) (\<lambda>fetches.
        then_do (for_loop (enumerate_from0 fetches)
                   (get_conv_features_body (traced_torchlib T) model device bs)
                   acc) (\<lambda>(conv_features, labels).
        then_do (cuda_synchronize (traced_torchlib T)) (\<lambda>_.
        then_do (time (traced_torchlib T)) (\<lambda>now.
        let conv_time = now - t0 in
        then_do (cuda_synchronize (traced_torchlib T)) (\<lambda>_.
        then_do (time (traced_torchlib T)) (\<lambda>start.
        then_do (tensor_gt (traced_torchlib T) conv_features 0) (\<lambda>conv_features.
        then_do (cuda_synchronize (traced_torchlib T)) (\<lambda>_.
        then_do (time (traced_torchlib T)) (\<lambda>now.
        let encode_time = now - start in
        then_do (tensor_cpu (traced_torchlib T) conv_features) (\<lambda>conv_features.
        ret (conv_features, labels, conv_time, encode_time)))))))))))))" for bs acc t0
    by (rule propagates_with_do [OF _ _ inside])
       (simp_all add: traced_torchlib_fields propagates_traced)
  show ?thesis
    unfolding get_conv_features_def
    unfolding traced_torchlib_fields(1-10)
    by (intro propagates_then_do block [unfolded traced_torchlib_fields(1-10)] propagates_traced_1)
qed

text \<open>
  C6. Run against any library whatever, with the exceptions its calls raise kept track of:
  when \<open>generate_RM\<close>, \<open>get_rand_features_GPU\<close> or \<open>get_random_features\<close> raises, exactly
  one library call has raised during it, it was the last thing that happened, and its
  exception is the one the caller gets; when one of them returns, no library call has
  raised. The same holds of \<open>get_conv_features\<close>, with one addition that Python's
  \<open>with\<close> brings: when a call inside \<open>with torch.no_grad()\<close> raises and leaving the block
  raises as well, the caller gets the later exception. No function raises without a
  library call raising, none goes on after a call has raised, none changes the exception.
\<close>

theorem library_exceptions_propagate:
  "propagates 0 (generate_RM (traced_pylib L) n_components n_features n_ram do_normalize)
   \<and> propagates 0 (get_rand_features_GPU (traced_pylib L) R X)
   \<and> propagates 0 (get_random_features (traced_opulib U) F n)
   \<and> propagates 1 (get_conv_features (traced_torchlib T) loader model out_shape device)"
  by (intro conjI generate_RM_propagates get_rand_features_GPU_propagates
      get_random_features_propagates get_conv_features_propagates)

text \<open>C6, on NumPy: \<open>generate_RM\<close> with \<open>n_ram = 0\<close> passes on the ZeroDivisionError of
  \<open>//\<close>, and \<open>get_rand_features_GPU\<close> on a block of the wrong height passes on the
  ValueError of \<open>cp.dot\<close>, after one reading of the clock.\<close>

theorem library_exceptions_propagate_witness:
  "generate_RM (traced_pylib numpy) 15 1 0 True (example_world, [])
     = (Inl ZeroDivisionError, (example_world, [ZeroDivisionError]))
   \<and> get_rand_features_GPU (traced_pylib numpy) [array 2 1 [[1], [1]]] (array 1 1 [[1]])
       (example_world, [])
     = (Inl ValueError, (example_world\<lparr>reads := 1\<rparr>, [ValueError]))"
  using library_exceptions_propagate
    [where L = numpy and n_components = 15 and n_features = 1 and n_ram = 0 and do_normalize = True
       and R = "[array 2 1 [[1], [1]]]" and X = "array 1 1 [[1]]"]
  by (simp add: generate_RM_def get_rand_features_GPU_def compute_dot_split_def
      traced_pylib_fields numpy_fields traced_def run_then_do floordiv_def run_raise run_ret
      time_time_def dot_def array_def example_world_def)

section \<open>The encoding of the autoencoder\<close>

lemma encode_entry_value:
  "fp_div (fp_add (fp_sign v) (Finite 1)) (Finite 2) \<in> {Finite 0, Finite (1 / 2), Finite 1}"
  by (cases v) (simp_all add: sgn_if)

lemma encode_entry_half:
  "fp_div (fp_add (fp_sign v) (Finite 1)) (Finite 2) = Finite (1 / 2) \<longleftrightarrow> v = Finite 0 \<or> v = NaN"
  by (cases v) (simp_all add: sgn_if)

text \<open>
  C9 (amended). Every entry of \<open>Autoencoder.encode(x)\<close> is 0, 0.5 or 1, one entry per encoder
  pre-activation, and an entry is 0.5 exactly when its pre-activation is zero or NaN.
\<close>

theorem encode_three_valued:
  "length (encode self x) = length (encoder self x)
   \<and> (\<forall>i<length (encoder self x).
        encode self x ! i \<in> {Finite 0, Finite (1 / 2), Finite 1}
        \<and> (encode self x ! i = Finite (1 / 2)
             \<longleftrightarrow> encoder self x ! i = Finite 0 \<or> encoder self x ! i = NaN))"
proof -
  have "encode self x ! i \<in> {Finite 0, Finite (1 / 2), Finite 1}
      \<and> (encode self x ! i = Finite (1 / 2)
           \<longleftrightarrow> encoder self x ! i = Finite 0 \<or> encoder self x ! i = NaN)"
    if "i < length (encoder self x)" for i
  proof -
    have "encode self x ! i = fp_div (fp_add (fp_sign (encoder self x ! i)) (Finite 1)) (Finite 2)"
      using that by (simp add: encode_def)
    then show ?thesis
      using encode_entry_value [of "encoder self x ! i"] encode_entry_half [of "encoder self x ! i"]
      by presburger
  qed
  moreover have "length (encode self x) = length (encoder self x)"
    by (simp add: encode_def)
  ultimately show ?thesis
    by blast
qed

text \<open>C9 (amended), for an encoder that doubles its input and the inputs
  \<open>-3, 0, 2, NaN, inf, -inf\<close>: the encoding is \<open>0, 0.5, 1, 0.5, 1, 0\<close>.\<close>

theorem encode_three_valued_witness:
  "encode \<lparr>encoder = scaling 2, decoder = (\<lambda>h. h), beta = 1\<rparr>
      [Finite (- 3), Finite 0, Finite 2, NaN, PosInf, NegInf]
     = [Finite 0, Finite (1 / 2), Finite 1, Finite (1 / 2), Finite 1, Finite 0]"
  using encode_three_valued
    [of "\<lparr>encoder = scaling 2, decoder = (\<lambda>h. h), beta = 1\<rparr>"
        "[Finite (- 3), Finite 0, Finite 2, NaN, PosInf, NegInf]"]
  by (simp add: encode_def scaling_def signed_inf_def)

text \<open>C9 as stated fails at a pre-activation that is NaN: it is not zero, and \<open>torch.sign\<close>
  is 0 there, so the entry of the encoding is 0.5.\<close>

theorem encode_half_at_nan:
  "encoder \<lparr>encoder = scaling 2, decoder = (\<lambda>h. h), beta = 1\<rparr> [NaN] ! 0 = NaN
   \<and> NaN \<noteq> Finite 0
   \<and> encode \<lparr>encoder = scaling 2, decoder = (\<lambda>h. h), beta = 1\<rparr> [NaN] ! 0 = Finite (1 / 2)"
  by (simp add: encode_def scaling_def)

section \<open>The models of the double descent loop\<close>

lemma cols_upto_shape:
  assumes "valid X" and "a \<le> ncols X"
  shows "nrows (cols_upto a X) = nrows X \<and> ncols (cols_upto a X) = a \<and> valid (cols_upto a X)"
proof -
  have "list_all (\<lambda>r. length r = ncols X) (rows X)"
    using assms(1) by (simp add: valid_def)
  then have "list_all (\<lambda>r. length (take a r) = a) (rows X)"
    using assms(2) by (simp add: list_all_iff)
  then show ?thesis
    using assms by (simp add: cols_upto_def valid_def list_all_iff)
qed

lemma cols_upto_entry:
  assumes "valid X" and "r < nrows X" and "c < a"
  shows "rows (cols_upto a X) ! r ! c = rows X ! r ! c"
  using assms by (simp add: cols_upto_def valid_def)

lemma cols_upto_prefix_row:
  assumes "valid X" and "r < nrows X" and "a \<le> b"
  shows "rows (cols_upto a X) ! r = take a (rows (cols_upto b X) ! r)"
  using assms by (simp add: cols_upto_def valid_def min_absorb1)

text \<open>
  C10. The list of model sizes is strictly ascending and ends in its maximum, 20000. The
  notebook opens the OPU once, with \<open>n_components = max(rps_list)\<close>, transforms the training
  and the test set once each, and then, for every size in the order of the list, fits and
  scores on \<open>X[:, :rp]\<close> of those two projections and on nothing else. For a projection
  \<open>X\<close> that has the columns asked for, \<open>X[:, :rp]\<close> has the rows of \<open>X\<close> and \<open>rp\<close> columns,
  which are the first \<open>rp\<close> columns of \<open>X\<close>; so the feature sets are nested: the columns of
  a smaller model are the first columns of every larger one.
\<close>

theorem double_descent_models_nested:
  "max_rps = 20000 \<and> last rps_list = max_rps \<and> sorted rps_list \<and> distinct rps_list
   \<and> snd (double_descent (recording device unfitted fitted scored) X_train y_train X_test y_test [])
       = [Made_OPU max_rps, Entered, Transformed (map_entries to_int32 X_train),
          Transformed (map_entries to_int32 X_test), Left]
         @ concat (map (calls_of_model (device max_rps (map_entries to_int32 X_train)) y_train
                          (device max_rps (map_entries to_int32 X_test)) y_test) rps_list)
   \<and> (\<forall>i j. i \<le> j \<and> j < length rps_list \<and> valid X \<and> rps_list ! j \<le> ncols X \<longrightarrow>
          rps_list ! i \<le> rps_list ! j
          \<and> nrows (cols_upto (rps_list ! i) X) = nrows X
          \<and> ncols (cols_upto (rps_list ! i) X) = rps_list ! i
          \<and> valid (cols_upto (rps_list ! i) X)
          \<and> (\<forall>r<nrows X.
                (\<forall>c<rps_list ! i. rows (cols_upto (rps_list ! i) X) ! r ! c = rows X ! r ! c)
                \<and> rows (cols_upto (rps_list ! i) X) ! r
                    = take (rps_list ! i) (rows (cols_upto (rps_list ! j) X) ! r)))"
proof -
  have chain: "rps_list ! i \<le> rps_list ! j
          \<and> nrows (cols_upto (rps_list ! i) X) = nrows X
          \<and> ncols (cols_upto (rps_list ! i) X) = rps_list ! i
          \<and> valid (cols_upto (rps_list ! i) X)
          \<and> (\<forall>r<nrows X.
                (\<forall>c<rps_list ! i. rows (cols_upto (rps_list ! i) X) ! r ! c = rows X ! r ! c)
                \<and> rows (cols_upto (rps_list ! i) X) ! r
                    = take (rps_list ! i) (rows (cols_upto (rps_list ! j) X) ! r))"
    if hyp: "i \<le> j \<and> j < length rps_list \<and> valid X \<and> rps_list ! j \<le> ncols X" for i j
  proof -
    have le: "rps_list ! i \<le> rps_list ! j"
      using hyp rps_list_ascending by (simp add: sorted_nth_mono)
    from hyp have X: "valid X"
      by simp
    from hyp le have fits: "rps_list ! i \<le> ncols X"
      by simp
    show ?thesis
      using le cols_upto_shape [OF X fits] cols_upto_entry [OF X] cols_upto_prefix_row [OF X _ le]
      by simp
  qed
  have last: "last rps_list = max_rps"
    by (simp add: max_rps_value) (simp add: rps_list_value)
  show ?thesis
  proof (intro conjI)
    show "max_rps = 20000"
      by (rule max_rps_value)
    show "last rps_list = max_rps"
      by (rule last)
    show "sorted rps_list" "distinct rps_list"
      using rps_list_ascending by blast+
    show "snd (double_descent (recording device unfitted fitted scored) X_train y_train X_test y_test [])
       = [Made_OPU max_rps, Entered, Transformed (map_entries to_int32 X_train),
          Transformed (map_entries to_int32 X_test), Left]
         @ concat (map (calls_of_model (device max_rps (map_entries to_int32 X_train)) y_train
                          (device max_rps (map_entries to_int32 X_test)) y_test) rps_list)"
      by (rule double_descent_calls)
    show "\<forall>i j. i \<le> j \<and> j < length rps_list \<and> valid X \<and> rps_list ! j \<le> ncols X \<longrightarrow>
          rps_list ! i \<le> rps_list ! j
          \<and> nrows (cols_upto (rps_list ! i) X) = nrows X
          \<and> ncols (cols_upto (rps_list ! i) X) = rps_list ! i
          \<and> valid (cols_upto (rps_list ! i) X)
          \<and> (\<forall>r<nrows X.
                (\<forall>c<rps_list ! i. rows (cols_upto (rps_list ! i) X) ! r ! c = rows X ! r ! c)
                \<and> rows (cols_upto (rps_list ! i) X) ! r
                    = take (rps_list ! i) (rows (cols_upto (rps_list ! j) X) ! r))"
      using chain by blast
  qed
qed

text \<open>C10, for the first two models, of 2000 and 2500 features, on a projection of one row
  and 2500 columns that holds \<open>0, 1, ..., 2499\<close>: the first model sees \<open>0, ..., 1999\<close>, the
  first 2000 entries of what the second sees.\<close>

theorem double_descent_models_nested_witness:
  "rps_list ! 0 = 2000 \<and> rps_list ! 1 = 2500
   \<and> cols_upto (rps_list ! 0) (array 1 2500 [map real [0..<2500]]) = array 1 2000 [map real [0..<2000]]
   \<and> rows (cols_upto (rps_list ! 0) (array 1 2500 [map real [0..<2500]])) ! 0
       = take 2000 (rows (cols_upto (rps_list ! 1) (array 1 2500 [map real [0..<2500]])) ! 0)"
proof -
  let ?X = "array 1 2500 [map real [0..<2500]]"
  have first: "rps_list ! 0 = 2000" and second: "rps_list ! 1 = 2500"
    by (simp_all add: rps_list_value)
  have hyp: "(0::nat) \<le> 1 \<and> 1 < length rps_list \<and> valid ?X \<and> rps_list ! 1 \<le> ncols ?X"
    by (simp add: rps_list_value array_def valid_def)
  note nested = double_descent_models_nested
    [where X = ?X and device = "\<lambda>n A. array 0 0 []" and unfitted = "()"
       and fitted = "\<lambda>clf A y. ()" and scored = "\<lambda>clf A y. 0" and X_train = "array 0 0 []"
       and X_test = "array 0 0 []" and y_train = "()" and y_test = "()",
     THEN conjunct2, THEN conjunct2, THEN conjunct2, THEN conjunct2, THEN conjunct2,
     rule_format, of 0 1, OF hyp]
  then have "\<forall>r<nrows ?X. rows (cols_upto (rps_list ! 0) ?X) ! r
      = take (rps_list ! 0) (rows (cols_upto (rps_list ! 1) ?X) ! r)"
    by blast
  then have "rows (cols_upto (rps_list ! 0) ?X) ! 0
      = take (rps_list ! 0) (rows (cols_upto (rps_list ! 1) ?X) ! 0)"
    by (simp add: array_def)
  moreover have "cols_upto 2000 ?X = array 1 2000 [map real [0..<2000]]"
    by (simp add: cols_upto_def array_def take_map)
  ultimately show ?thesis
    using first second by simp
qed

section \<open>The feature matrix\<close>

declare chunks.simps [simp del]

lemma chunks_Nil: "chunks n [] = []"
  by (simp add: chunks.simps)

lemma chunks_zero: "chunks 0 xs = []"
  by (simp add: chunks.simps)

lemma chunks_step: "0 < n \<Longrightarrow> xs \<noteq> [] \<Longrightarrow> chunks n xs = take n xs # chunks n (drop n xs)"
  by (subst chunks.simps) simp

lemma chunks_shape:
  "list_all (\<lambda>b. b \<noteq> [] \<and> length b \<le> n) (chunks n xs)
   \<and> list_all (\<lambda>b. length b = n) (butlast (chunks n xs))"
proof (induction "length xs" arbitrary: xs rule: less_induct)
  case less
  show ?case
  proof (cases "n = 0 \<or> xs = []")
    case True
    then have "chunks n xs = []"
      by (auto simp: chunks_Nil chunks_zero)
    then show ?thesis
      by simp
  next
    case False
    then have n: "0 < n" and ne: "xs \<noteq> []"
      by simp_all
    have step: "chunks n xs = take n xs # chunks n (drop n xs)"
      using n ne by (rule chunks_step)
    have "length (drop n xs) < length xs"
      using n ne by simp
    then have IH: "list_all (\<lambda>b. b \<noteq> [] \<and> length b \<le> n) (chunks n (drop n xs))
        \<and> list_all (\<lambda>b. length b = n) (butlast (chunks n (drop n xs)))"
      by (rule less.hyps)
    have full: "length (take n xs) = n" if "chunks n (drop n xs) \<noteq> []"
    proof -
      from that have "drop n xs \<noteq> []"
        by (auto simp: chunks_Nil)
      then show ?thesis
        by simp
    qed
    show ?thesis
      using IH n ne full by (simp add: step)
  qed
qed

lemma batches_shape:
  "list_all (\<lambda>b. b \<noteq> [] \<and> length b \<le> batch_size ld) (batches ld s)
   \<and> list_all (\<lambda>b. length b = batch_size ld) (butlast (batches ld s))"
proof (cases "drop_last ld")
  case True
  have "b \<noteq> [] \<and> length b \<le> batch_size ld"
    if "b \<in> set (chunks (batch_size ld) (sampler ld s))" for b
    using chunks_shape [of "batch_size ld" "sampler ld s"] that by (simp add: list_all_iff)
  then show ?thesis
    using True by (auto simp: batches_def list_all_iff dest: in_set_butlastD)
next
  case False
  then show ?thesis
    using chunks_shape [of "batch_size ld" "sampler ld s"] by (simp add: batches_def)
qed

lemma torch_fields:
  "time torch = time_time"
  "len_dataset torch = (\<lambda>ld. ret (length (dataset ld)))"
  "get_batch_size torch = (\<lambda>ld. ret (batch_size ld))"
  "torch_FloatTensor torch = float_tensor"
  "tensor_to torch = (\<lambda>A d. ret A)"
  "np_empty torch = empty_uint8"
  "model_eval torch = (\<lambda>md. ret ())"
  "cuda_synchronize torch = ret ()"
  "no_grad_enter torch = ret ()"
  "no_grad_exit torch = ret ()"
  "iter_loader torch = iterate"
  "images_to torch = (\<lambda>imgs d. ret imgs)"
  "model_call torch = (\<lambda>md imgs. ret (map md imgs))"
  "data_view torch = view"
  "setitem_rows torch = set_rows"
  "targets_numpy torch = ret"
  "setitem_slice torch = set_slice"
  "tensor_gt torch = (\<lambda>A c. ret (map_entries (\<lambda>v. c < v) A))"
  "tensor_cpu torch = ret"
  by (simp_all add: torch_def)

lemma length_concat_const:
  "list_all (\<lambda>r. length r = m) xss \<Longrightarrow> length (concat xss) = length xss * m"
  by (induction xss) simp_all

lemma concat_nth_block:
  "list_all (\<lambda>r. length r = m) xss \<Longrightarrow> i < length xss \<Longrightarrow>
   take m (drop (i * m) (concat xss)) = xss ! i"
proof (induction xss arbitrary: i)
  case Nil
  then show ?case by simp
next
  case (Cons x xss)
  show ?case
  proof (cases i)
    case 0
    then show ?thesis
      using Cons.prems by simp
  next
    case (Suc j)
    then show ?thesis
      using Cons.prems Cons.IH [of j] by simp
  qed
qed

lemma view_rows:
  assumes "xss \<noteq> []" and "list_all (\<lambda>r. length r = m) xss"
  shows "view xss (length xss) = ret \<lparr>nrows = length xss, ncols = m, rows = xss\<rparr>"
proof -
  have len: "length (concat xss) = length xss * m"
    using assms(2) by (rule length_concat_const)
  have pos: "0 < length xss"
    using assms(1) by simp
  have rows: "map (\<lambda>i. take m (drop (i * m) (concat xss))) [0..<length xss] = xss"
    by (rule nth_equalityI) (simp_all add: concat_nth_block [OF assms(2)])
  have "view xss (length xss) =
      (if length xss = 0 \<or> (length xss * m) mod length xss \<noteq> 0 then raise RuntimeError
       else ret \<lparr>nrows = length xss, ncols = (length xss * m) div length xss,
                 rows = map (\<lambda>i. take ((length xss * m) div length xss)
                               (drop (i * ((length xss * m) div length xss)) (concat xss)))
                          [0..<length xss]\<rparr>)"
    by (simp only: view_def Let_def len)
  then show ?thesis
    using pos by (simp add: rows)
qed

lemma broadcast_to_same:
  assumes "length (rows V) = k" and "list_all (\<lambda>r. length r = m) (rows V)"
  shows "rows (broadcast_to (k, m) V) = rows V"
proof -
  have "map (stretch m) (rows V) = rows V"
    using assms(2) by (induction "rows V" arbitrary: V) (simp_all add: stretch_same map_idI list_all_iff)
  then show ?thesis
    using assms(1) by (simp add: broadcast_to_def stretch_same)
qed

lemma set_rows_block:
  assumes "a \<le> nrows A" and "min b (nrows A) = a + nrows V" and "ncols V = ncols A" and "valid V"
  shows "set_rows A a b V = ret (A\<lparr>rows := take a (rows A) @ rows V @ drop (a + nrows V) (rows A)\<rparr>)"
proof -
  have "rows (broadcast_to (nrows V, ncols A) V) = rows V"
    using assms(3,4) by (intro broadcast_to_same) (simp_all add: valid_def)
  then show ?thesis
    using assms(1,2,3) by (simp add: set_rows_def Let_def min_absorb1 broadcastable_def)
qed

lemma set_slice_block:
  assumes "a \<le> length ls" and "min b (length ls) = a + length v"
  shows "set_slice ls a b v = ret (take a ls @ map (\<lambda>x. x mod 256) v @ drop (a + length v) ls)"
  using assms by (simp add: set_slice_def Let_def min_absorb1 stretch_same)

lemma body_step:
  assumes ne: "ixs \<noteq> []"
    and ixs: "list_all (\<lambda>j. j < length (dataset ld)) ixs"
    and feat: "list_all (\<lambda>j. length (model (fst (dataset ld ! j))) = m) ixs"
    and A: "nrows A = n" "ncols A = m"
    and labs: "length labs = n"
    and lo: "i * bs \<le> n"
    and hi: "min ((i + 1) * bs) n = i * bs + length ixs"
  shows "get_conv_features_body torch model device bs (i, fetch ld ixs) (A, labs) w =
       (Inr (A\<lparr>rows := take (i * bs) (rows A) @ map (\<lambda>j. model (fst (dataset ld ! j))) ixs
                          @ drop (i * bs + length ixs) (rows A)\<rparr>,
             take (i * bs) labs @ map (\<lambda>j. snd (dataset ld ! j) mod 256) ixs
               @ drop (i * bs + length ixs) labs), w)"
proof -
  let ?outs = "map (\<lambda>j. model (fst (dataset ld ! j))) ixs"
  let ?V = "\<lparr>nrows = length ixs, ncols = m, rows = ?outs\<rparr>"
  let ?labs' = "take (i * bs) labs @ map (\<lambda>j. snd (dataset ld ! j) mod 256) ixs
      @ drop (i * bs + length ixs) labs"
  have outs: "list_all (\<lambda>r. length r = m) ?outs"
    using feat by (simp add: list_all_iff)
  have view: "view (map (model \<circ> (\<lambda>j. fst (dataset ld ! j))) ixs) (length ixs) = ret ?V"
    using view_rows [OF _ outs] ne by (simp add: comp_def)
  have rows: "set_rows A (i * bs) ((i + 1) * bs) ?V
      = ret (A\<lparr>rows := take (i * bs) (rows A) @ ?outs @ drop (i * bs + length ixs) (rows A)\<rparr>)"
    using set_rows_block [of "i * bs" A "(i + 1) * bs" ?V] lo hi A outs
    by (simp add: valid_def)
  have slice: "set_slice labs (i * bs) ((i + 1) * bs) (map (\<lambda>j. snd (dataset ld ! j)) ixs) = ret ?labs'"
    using set_slice_block [of "i * bs" labs "(i + 1) * bs" "map (\<lambda>j. snd (dataset ld ! j)) ixs"]
      lo hi labs by (simp add: comp_def)
  show ?thesis
    using ixs
    by (simp add: get_conv_features_body_def torch_fields fetch_def then_do_ret view rows slice
        run_ret del: One_nat_def)
qed

lemma loop_fills:
  "list_all (\<lambda>b. b \<noteq> [] \<and> length b \<le> bs) bss \<Longrightarrow>
   list_all (\<lambda>b. length b = bs) (butlast bss) \<Longrightarrow>
   list_all (\<lambda>j. j < length (dataset ld)) (concat bss) \<Longrightarrow>
   list_all (\<lambda>j. length (model (fst (dataset ld ! j))) = m) (concat bss) \<Longrightarrow>
   nrows A = n \<Longrightarrow> length (rows A) = n \<Longrightarrow> ncols A = m \<Longrightarrow> length labs = n \<Longrightarrow>
   i * bs + length (concat bss) = n \<Longrightarrow>
   for_loop (zip [i..<i + length bss] (map (fetch ld) bss))
       (get_conv_features_body torch model device bs) (A, labs) w
     = (Inr (A\<lparr>rows := take (i * bs) (rows A) @ map (\<lambda>j. model (fst (dataset ld ! j))) (concat bss)\<rparr>,
             take (i * bs) labs @ map (\<lambda>j. snd (dataset ld ! j) mod 256) (concat bss)), w)"
proof (induction bss arbitrary: i A labs)
  case Nil
  then show ?case
    by (simp add: run_ret)
next
  case (Cons b rest)
  let ?F = "\<lambda>ys. map (\<lambda>j. model (fst (dataset ld ! j))) ys"
  let ?L = "\<lambda>ys. map (\<lambda>j. snd (dataset ld ! j) mod 256) ys"
  let ?A1 = "A\<lparr>rows := take (i * bs) (rows A) @ ?F b @ drop (i * bs + length b) (rows A)\<rparr>"
  let ?labs1 = "take (i * bs) labs @ ?L b @ drop (i * bs + length b) labs"
  have ne: "b \<noteq> []" and le: "length b \<le> bs"
    using Cons.prems(1) by simp_all
  have ixs: "list_all (\<lambda>j. j < length (dataset ld)) b"
    and ixs': "list_all (\<lambda>j. j < length (dataset ld)) (concat rest)"
    using Cons.prems(3) by simp_all
  have feat: "list_all (\<lambda>j. length (model (fst (dataset ld ! j))) = m) b"
    and feat': "list_all (\<lambda>j. length (model (fst (dataset ld ! j))) = m) (concat rest)"
    using Cons.prems(4) by simp_all
  have total: "i * bs + length b + length (concat rest) = n"
    using Cons.prems(9) by simp
  have lo: "i * bs \<le> n"
    using total by simp
  have full: "length b = bs" if "rest \<noteq> []"
    using Cons.prems(2) that by simp
  have hi: "min ((i + 1) * bs) n = i * bs + length b"
  proof (cases "rest = []")
    case True
    then show ?thesis
      using total le by (simp add: min_def)
  next
    case False
    then show ?thesis
      using total full by (simp add: min_def)
  qed
  have step: "get_conv_features_body torch model device bs (i, fetch ld b) (A, labs) w
      = (Inr (?A1, ?labs1), w)"
    by (rule body_step [OF ne ixs feat Cons.prems(5,7,8) lo hi])
  have loop: "for_loop (zip [i..<i + length (b # rest)] (map (fetch ld) (b # rest)))
         (get_conv_features_body torch model device bs) (A, labs) w
       = for_loop (zip [Suc i..<Suc i + length rest] (map (fetch ld) rest))
         (get_conv_features_body torch model device bs) (?A1, ?labs1) w"
    by (simp add: upt_conv_Cons run_then_do step del: upt_Suc)
  show ?case
  proof (cases "rest = []")
    case True
    then show ?thesis
      using loop total Cons.prems(6,8) by (simp add: run_ret)
  next
    case False
    then have k: "length b = bs"
      by (rule full)
    have A1: "nrows ?A1 = n" "length (rows ?A1) = n" "ncols ?A1 = m"
      using Cons.prems(5,6,7) total by simp_all
    have labs1: "length ?labs1 = n"
      using Cons.prems(8) total by simp
    have rest1: "list_all (\<lambda>b. b \<noteq> [] \<and> length b \<le> bs) rest"
      using Cons.prems(1) by simp
    have rest2: "list_all (\<lambda>b. length b = bs) (butlast rest)"
      using Cons.prems(2) False by simp
    have total': "Suc i * bs + length (concat rest) = n"
      using total k by simp
    have "for_loop (zip [Suc i..<Suc i + length rest] (map (fetch ld) rest))
         (get_conv_features_body torch model device bs) (?A1, ?labs1) w
       = (Inr (?A1\<lparr>rows := take (Suc i * bs) (rows ?A1) @ ?F (concat rest)\<rparr>,
               take (Suc i * bs) ?labs1 @ ?L (concat rest)), w)"
      by (rule Cons.IH [OF rest1 rest2 ixs' feat' A1 labs1 total'])
    moreover have "take (Suc i * bs) (rows ?A1) = take (i * bs) (rows A) @ ?F b"
      using Cons.prems(6) total k by simp
    moreover have "take (Suc i * bs) ?labs1 = take (i * bs) labs @ ?L b"
      using Cons.prems(8) total k by simp
    ultimately show ?thesis
      using loop by simp
  qed
qed

lemma get_conv_features_torch:
  assumes full: "length (yielded ld w) = length (dataset ld)"
    and ixs: "list_all (\<lambda>j. j < length (dataset ld)) (yielded ld w)"
    and feat: "list_all (\<lambda>j. length (model (fst (dataset ld ! j))) = nat out_shape) (yielded ld w)"
    and nonneg: "0 \<le> out_shape"
  shows "fst (get_conv_features torch ld model out_shape device w)
     = Inr (\<lparr>nrows = length (dataset ld), ncols = nat out_shape,
             rows = map (encoded_features ld model w) [0..<length (dataset ld)]\<rparr>,
            map (\<lambda>j. snd (dataset ld ! j) mod 256) (yielded ld w),
            clock w (Suc (reads w)) - clock w (reads w),
            clock w (Suc (Suc (Suc (reads w)))) - clock w (Suc (Suc (reads w))))"
proof -
  let ?n = "length (dataset ld)"
  let ?m = "nat out_shape"
  let ?A0 = "\<lparr>nrows = ?n, ncols = ?m, rows = map (\<lambda>i. map (junk w i) [0..<?m]) [0..<?n]\<rparr>"
  let ?labs0 = "map (\<lambda>i. junk_bytes w i mod 256) [0..<?n]"
  let ?w1 = "w\<lparr>reads := Suc (reads w), seeded := Suc (seeded w)\<rparr>"
  let ?bss = "batches ld (seeds w (seeded w))"
  let ?F = "map (\<lambda>j. model (fst (dataset ld ! j))) (yielded ld w)"
  let ?L = "map (\<lambda>j. snd (dataset ld ! j) mod 256) (yielded ld w)"
  have cat: "concat ?bss = yielded ld w"
    by (simp add: yielded_def)
  have loop: "for_loop (zip [0..<0 + length ?bss] (map (fetch ld) ?bss))
         (get_conv_features_body torch model device (batch_size ld)) (?A0, ?labs0) ?w1
       = (Inr (?A0\<lparr>rows := take (0 * batch_size ld) (rows ?A0) @ ?F\<rparr>,
               take (0 * batch_size ld) ?labs0 @ ?L), ?w1)"
    unfolding cat [symmetric] using full ixs feat
    by (intro loop_fills [OF conjunct1 [OF batches_shape] conjunct2 [OF batches_shape]])
      (simp_all add: cat)
  have enc: "map (map ((<) 0) \<circ> (\<lambda>j. model (fst (dataset ld ! j)))) (yielded ld w)
      = map (encoded_features ld model w) [0..<?n]"
    by (rule nth_equalityI) (simp_all add: full encoded_features_def)
  have "fst (get_conv_features torch ld model out_shape device w)
      = Inr (map_entries ((<) 0) (?A0\<lparr>rows := ?F\<rparr>), ?L,
             clock w (Suc (reads w)) - clock w (reads w),
             clock w (Suc (Suc (Suc (reads w)))) - clock w (Suc (Suc (reads w))))"
    using nonneg loop
    by (simp add: get_conv_features_def torch_fields then_do_ret float_tensor_def empty_uint8_def
        with_do_def run_then_do run_ret time_time_def iterate_def enumerate_from0_def Let_def)
  then show ?thesis
    by (simp add: map_entries_def enc)
qed


lemma get_conv_features_torch_negative:
  "out_shape < 0 \<Longrightarrow> fst (get_conv_features torch ld model out_shape device w) = Inl RuntimeError"
  by (simp add: get_conv_features_def torch_fields then_do_ret then_do_raise float_tensor_def
      run_raise)

lemma get_random_features_optical:
  "fst (get_random_features (optical device) B n w)
     = Inr (map_entries real_of_int (device (w\<lparr>reads := Suc (reads w)\<rparr>) n B),
            clock w (Suc (reads w)) - clock w (reads w),
            clock w (Suc (Suc (Suc (reads w)))) - clock w (Suc (Suc (reads w))))"
  by (simp add: get_random_features_def optical_def then_do_ret run_then_do run_ret time_time_def
      Let_def)

text \<open>
  C3 (amended). For a loader whose pass yields as many samples as its dataset holds, each of
  them a sample of the dataset, and a network that gives \<open>out_shape\<close> features for every
  image of the pass, \<open>get_conv_features\<close> returns, and the matrix it returns has one row
  per sample of the dataset and \<open>out_shape\<close> columns; its entry \<open>(i, j)\<close> is whether the
  \<open>j\<close>-th feature of the \<open>i\<close>-th sample that the loader yields on the pass is positive.
\<close>

theorem conv_features_boolean_encoded:
  assumes "length (yielded ld w) = length (dataset ld)"
    and "list_all (\<lambda>j. j < length (dataset ld)) (yielded ld w)"
    and "list_all (\<lambda>j. length (model (fst (dataset ld ! j))) = nat out_shape) (yielded ld w)"
    and "0 \<le> out_shape"
  shows "\<exists>labels conv_time encode_time.
     fst (get_conv_features torch ld model out_shape device w)
       = Inr (\<lparr>nrows = length (dataset ld), ncols = nat out_shape,
               rows = map (\<lambda>i. map (\<lambda>f. 0 < f) (model (fst (dataset ld ! (yielded ld w ! i)))))
                        [0..<length (dataset ld)]\<rparr>,
              labels, conv_time, encode_time)"
proof -
  have "encoded_features ld model w
      = (\<lambda>i. map (\<lambda>f. 0 < f) (model (fst (dataset ld ! (yielded ld w ! i)))))"
    by (simp add: encoded_features_def fun_eq_iff)
  then show ?thesis
    using get_conv_features_torch [OF assms, of device] by simp
qed

text \<open>C3 (amended), for three samples that the seed of the pass shuffles into the order
  2, 0, 1, in batches of two, and a network that gives two features.\<close>

theorem conv_features_boolean_encoded_witness:
  "yielded \<lparr>dataset = [(1::real, 7), (- 2, 3), (0, 300)], batch_size = 2, drop_last = False,
              sampler = (\<lambda>seed. if seed = 0 then [2, 0, 1] else [0, 1, 2])\<rparr> example_torch_world
     = [2, 0, 1]
   \<and> (\<exists>labels conv_time encode_time.
     fst (get_conv_features torch
            \<lparr>dataset = [(1::real, 7), (- 2, 3), (0, 300)], batch_size = 2, drop_last = False,
              sampler = (\<lambda>seed. if seed = 0 then [2, 0, 1] else [0, 1, 2])\<rparr>
            (\<lambda>x. [x, 1 - x]) 2 ''cpu'' example_torch_world)
       = Inr (array 3 2 [[False, True], [True, False], [False, True]],
              labels, conv_time, encode_time))"
proof -
  let ?ld = "\<lparr>dataset = [(1::real, 7), (- 2, 3), (0, 300)], batch_size = 2, drop_last = False,
              sampler = (\<lambda>seed. if seed = 0 then [2, 0, 1] else [0, 1, 2])\<rparr>"
  have pass: "yielded ?ld example_torch_world = [2, 0, 1]"
    by (simp add: yielded_def batches_def chunks.simps example_torch_world_def)
  have "\<exists>labels conv_time encode_time.
     fst (get_conv_features torch ?ld (\<lambda>x. [x, 1 - x]) 2 ''cpu'' example_torch_world)
       = Inr (\<lparr>nrows = length (dataset ?ld), ncols = nat 2,
               rows = map (\<lambda>i. map (\<lambda>f. 0 < f)
                        ((\<lambda>x. [x, 1 - x]) (fst (dataset ?ld ! (yielded ?ld example_torch_world ! i)))))
                        [0..<length (dataset ?ld)]\<rparr>,
              labels, conv_time, encode_time)"
    by (rule conv_features_boolean_encoded) (simp_all add: pass)
  then show ?thesis
    by (simp add: pass array_def upt_conv_Cons numeral_3_eq_3)
qed

text \<open>C3 as stated fails twice. A loader that drops its last incomplete batch: of three
  samples in batches of two, the third is never fetched, and the third row of the matrix is
  the thresholded content of the memory \<open>torch.FloatTensor\<close> handed out, here \<open>False\<close>,
  while the feature of the third sample is positive. A loader that shuffles, without
  dropping anything: when the pass yields sample 1 before sample 0, row 0 of the matrix
  holds the thresholded feature of sample 1, \<open>False\<close>, while the feature of sample 0 is
  positive.\<close>

theorem dropped_batch_and_shuffled_rows:
  "fst (get_conv_features torch
          \<lparr>dataset = [(1::real, 0), (2, 0), (3, 0)], batch_size = 2, drop_last = True,
            sampler = (\<lambda>seed. [0, 1, 2])\<rparr>
          (\<lambda>x. [x]) 1 ''cpu'' example_torch_world)
     = Inr (array 3 1 [[True], [True], [False]], [0, 0, 0], 1, 1)
   \<and> encoded_sample
         \<lparr>dataset = [(1::real, 0), (2, 0), (3, 0)], batch_size = 2, drop_last = True,
           sampler = (\<lambda>seed. [0, 1, 2])\<rparr> (\<lambda>x. [x]) 2 = [True]
   \<and> fst (get_conv_features torch
          \<lparr>dataset = [(1::real, 0), (- 1, 0)], batch_size = 2, drop_last = False,
            sampler = (\<lambda>seed. [1, 0])\<rparr>
          (\<lambda>x. [x]) 1 ''cpu'' example_torch_world)
     = Inr (array 2 1 [[False], [True]], [0, 0], 1, 1)
   \<and> encoded_sample
         \<lparr>dataset = [(1::real, 0), (- 1, 0)], batch_size = 2, drop_last = False,
           sampler = (\<lambda>seed. [1, 0])\<rparr> (\<lambda>x. [x]) 0 = [True]"
  by (simp add: get_conv_features_def get_conv_features_body_def torch_fields then_do_ret
      float_tensor_def empty_uint8_def with_do_def run_then_do run_ret time_time_def batches_def
      iterate_def enumerate_from0_def Let_def chunks.simps fetch_def view_def set_rows_def
      set_slice_def broadcastable_def broadcast_to_def stretch_def map_entries_def array_def
      encoded_sample_def example_torch_world_def upt_conv_Cons)

section \<open>Calls repeated\<close>

text \<open>C4 as stated fails for three of the five functions. Two calls of \<open>generate_RM\<close> with
  the same arguments, one after the other, return different blocks, since NumPy's generator
  has moved on. Two calls of \<open>get_conv_features\<close> on the same shuffling loader, one after
  the other, return the rows and the labels in different orders, since Torch's generator
  has moved on; and on a loader that drops its last incomplete batch, two calls return
  different last rows when the memory \<open>torch.FloatTensor\<close> hands out holds different
  values. Two calls of \<open>get_random_features\<close> on the same input, one after the other, return
  different arrays on a device whose measurement drifts with the time at which it is
  taken.\<close>

theorem repeated_calls_differ:
  "data_of (generate_RM numpy 1 1 1 True example_world)
     \<noteq> data_of (generate_RM numpy 1 1 1 True (snd (generate_RM numpy 1 1 1 True example_world)))
   \<and> arrays_of (get_conv_features torch
          \<lparr>dataset = [(1::real, 0), (- 1, 1)], batch_size = 2, drop_last = False,
            sampler = (\<lambda>seed. if seed = 0 then [0, 1] else [1, 0])\<rparr>
          (\<lambda>x. [x]) 1 ''cpu'' example_torch_world)
       = Inr (array 2 1 [[True], [False]], [0, 1])
   \<and> arrays_of (get_conv_features torch
          \<lparr>dataset = [(1::real, 0), (- 1, 1)], batch_size = 2, drop_last = False,
            sampler = (\<lambda>seed. if seed = 0 then [0, 1] else [1, 0])\<rparr>
          (\<lambda>x. [x]) 1 ''cpu''
          (snd (get_conv_features torch
             \<lparr>dataset = [(1::real, 0), (- 1, 1)], batch_size = 2, drop_last = False,
               sampler = (\<lambda>seed. if seed = 0 then [0, 1] else [1, 0])\<rparr>
             (\<lambda>x. [x]) 1 ''cpu'' example_torch_world)))
       = Inr (array 2 1 [[False], [True]], [1, 0])
   \<and> arrays_of (get_conv_features torch
          \<lparr>dataset = [(1::real, 0), (2, 0), (3, 0)], batch_size = 2, drop_last = True,
            sampler = (\<lambda>seed. [0, 1, 2])\<rparr>
          (\<lambda>x. [x]) 1 ''cpu'' example_torch_world)
       = Inr (array 3 1 [[True], [True], [False]], [0, 0, 0])
   \<and> arrays_of (get_conv_features torch
          \<lparr>dataset = [(1::real, 0), (2, 0), (3, 0)], batch_size = 2, drop_last = True,
            sampler = (\<lambda>seed. [0, 1, 2])\<rparr>
          (\<lambda>x. [x]) 1 ''cpu'' (example_torch_world\<lparr>junk := (\<lambda>i j. 1)\<rparr>))
       = Inr (array 3 1 [[True], [True], [True]], [0, 0, 0])
   \<and> features_of (get_random_features (optical (\<lambda>w n B. array 1 1 [[int (reads w)]]))
          (array 1 1 [[True]]) 1 example_world)
       = Inr (array 1 1 [[1]])
   \<and> features_of (get_random_features (optical (\<lambda>w n B. array 1 1 [[int (reads w)]]))
          (array 1 1 [[True]]) 1
          (snd (get_random_features (optical (\<lambda>w n B. array 1 1 [[int (reads w)]]))
             (array 1 1 [[True]]) 1 example_world)))
       = Inr (array 1 1 [[5]])"
proof -
  have 1: "data_of (generate_RM numpy 1 1 1 True example_world)
     \<noteq> data_of (generate_RM numpy 1 1 1 True (snd (generate_RM numpy 1 1 1 True example_world)))"
    by (simp add: generate_RM_numpy data_of_def example_world_def block_at_def normalized_def
        map_entries_def drawn_block_def)
  note run = get_conv_features_def get_conv_features_body_def torch_fields then_do_ret
      float_tensor_def empty_uint8_def with_do_def run_then_do run_ret time_time_def batches_def
      iterate_def enumerate_from0_def Let_def chunks.simps fetch_def view_def set_rows_def
      set_slice_def broadcastable_def broadcast_to_def stretch_def map_entries_def array_def
      arrays_of_def example_torch_world_def upt_conv_Cons
  have 2: "arrays_of (get_conv_features torch
          \<lparr>dataset = [(1::real, 0), (- 1, 1)], batch_size = 2, drop_last = False,
            sampler = (\<lambda>seed. if seed = 0 then [0, 1] else [1, 0])\<rparr>
          (\<lambda>x. [x]) 1 ''cpu'' example_torch_world)
       = Inr (array 2 1 [[True], [False]], [0, 1])"
    by (simp add: run)
  have 3: "arrays_of (get_conv_features torch
          \<lparr>dataset = [(1::real, 0), (- 1, 1)], batch_size = 2, drop_last = False,
            sampler = (\<lambda>seed. if seed = 0 then [0, 1] else [1, 0])\<rparr>
          (\<lambda>x. [x]) 1 ''cpu''
          (snd (get_conv_features torch
             \<lparr>dataset = [(1::real, 0), (- 1, 1)], batch_size = 2, drop_last = False,
               sampler = (\<lambda>seed. if seed = 0 then [0, 1] else [1, 0])\<rparr>
             (\<lambda>x. [x]) 1 ''cpu'' example_torch_world)))
       = Inr (array 2 1 [[False], [True]], [1, 0])"
    by (simp add: run)
  have 4: "arrays_of (get_conv_features torch
          \<lparr>dataset = [(1::real, 0), (2, 0), (3, 0)], batch_size = 2, drop_last = True,
            sampler = (\<lambda>seed. [0, 1, 2])\<rparr>
          (\<lambda>x. [x]) 1 ''cpu'' example_torch_world)
       = Inr (array 3 1 [[True], [True], [False]], [0, 0, 0])"
    by (simp add: run)
  have 5: "arrays_of (get_conv_features torch
          \<lparr>dataset = [(1::real, 0), (2, 0), (3, 0)], batch_size = 2, drop_last = True,
            sampler = (\<lambda>seed. [0, 1, 2])\<rparr>
          (\<lambda>x. [x]) 1 ''cpu'' (example_torch_world\<lparr>junk := (\<lambda>i j. 1)\<rparr>))
       = Inr (array 3 1 [[True], [True], [True]], [0, 0, 0])"
    by (simp add: run)
  note opu = get_random_features_def optical_def then_do_ret run_then_do run_ret time_time_def
      Let_def features_of_def example_world_def map_entries_def array_def
  have 6: "features_of (get_random_features (optical (\<lambda>w n B. array 1 1 [[int (reads w)]]))
          (array 1 1 [[True]]) 1 example_world)
       = Inr (array 1 1 [[1]])"
    by (simp add: opu)
  have 7: "features_of (get_random_features (optical (\<lambda>w n B. array 1 1 [[int (reads w)]]))
          (array 1 1 [[True]]) 1
          (snd (get_random_features (optical (\<lambda>w n B. array 1 1 [[int (reads w)]]))
             (array 1 1 [[True]]) 1 example_world)))
       = Inr (array 1 1 [[5]])"
    by (simp add: opu)
  from 1 2 3 4 5 6 7 show ?thesis
    by (intro conjI)
qed

text \<open>
  C4 (amended). Two calls with the same arguments return the same data arrays, whatever the
  worlds they run in, for \<open>compute_dot_split\<close> and \<open>get_rand_features_GPU\<close>; for
  \<open>generate_RM\<close> when NumPy's generator delivers the same
  \<open>n_ram * n_features * (n_components // n_ram)\<close> draws to both; for \<open>get_conv_features\<close>
  (the features and the labels) when the two passes yield the same samples in the same
  order, as many as the dataset holds, each a sample of the dataset for which the network
  gives \<open>out_shape\<close> features; and for \<open>get_random_features\<close> on a device whose measurement
  is a function of its input.
\<close>

theorem deterministic_given_generators_and_device:
  "fst (compute_dot_split numpy x rm w) = fst (compute_dot_split numpy x rm w')
   \<and> data_of (get_rand_features_GPU numpy R X w) = data_of (get_rand_features_GPU numpy R X w')
   \<and> ((\<forall>n<nat n_ram * (nat nf * nat (nc div n_ram)). draws w (used w + n) = draws w' (used w' + n))
        \<longrightarrow> data_of (generate_RM numpy nc nf n_ram b w) = data_of (generate_RM numpy nc nf n_ram b w'))
   \<and> (yielded ld t = yielded ld t'
        \<and> length (yielded ld t) = length (dataset ld)
        \<and> list_all (\<lambda>j. j < length (dataset ld)) (yielded ld t)
        \<and> list_all (\<lambda>j. length (model (fst (dataset ld ! j))) = nat out_shape) (yielded ld t)
        \<longrightarrow> arrays_of (get_conv_features torch ld model out_shape device t)
            = arrays_of (get_conv_features torch ld model out_shape device t'))
   \<and> features_of (get_random_features (optical (\<lambda>u. measured)) B n_components w)
       = features_of (get_random_features (optical (\<lambda>u. measured)) B n_components w')"
proof -
  have 1: "fst (compute_dot_split numpy x rm w) = fst (compute_dot_split numpy x rm w')"
    by (simp add: compute_dot_split_numpy run_ret run_raise)
  have 2: "data_of (get_rand_features_GPU numpy R X w) = data_of (get_rand_features_GPU numpy R X w')"
    by (simp add: get_rand_features_GPU_numpy data_of_def)
  have 3: "data_of (generate_RM numpy nc nf n_ram b w) = data_of (generate_RM numpy nc nf n_ram b w')"
    if same: "\<forall>n<nat n_ram * (nat nf * nat (nc div n_ram)). draws w (used w + n) = draws w' (used w' + n)"
  proof -
    have "map (block_at w b nc nf (nc div n_ram)) [0..<nat n_ram]
        = map (block_at w' b nc nf (nc div n_ram)) [0..<nat n_ram]"
      using block_at_cong [OF same] by simp
    then show ?thesis
      by (simp add: generate_RM_numpy data_of_def)
  qed
  have 4: "arrays_of (get_conv_features torch ld model out_shape device t)
      = arrays_of (get_conv_features torch ld model out_shape device t')"
    if pass: "yielded ld t = yielded ld t'"
      and full: "length (yielded ld t) = length (dataset ld)"
      and ixs: "list_all (\<lambda>j. j < length (dataset ld)) (yielded ld t)"
      and feat: "list_all (\<lambda>j. length (model (fst (dataset ld ! j))) = nat out_shape) (yielded ld t)"
  proof (cases "0 \<le> out_shape")
    case True
    have enc: "encoded_features ld model t = encoded_features ld model t'"
      by (simp add: encoded_features_def fun_eq_iff pass)
    show ?thesis
      using get_conv_features_torch [OF full ixs feat True, of device]
        get_conv_features_torch [OF full [unfolded pass] ixs [unfolded pass] feat [unfolded pass] True,
          of device]
      by (simp add: arrays_of_def enc pass)
  next
    case False
    then show ?thesis
      by (simp add: arrays_of_def get_conv_features_torch_negative)
  qed
  have 5: "features_of (get_random_features (optical (\<lambda>u. measured)) B n_components w)
       = features_of (get_random_features (optical (\<lambda>u. measured)) B n_components w')"
    by (simp add: features_of_def get_random_features_optical)
  from 1 2 3 4 5 show ?thesis
    by blast
qed

text \<open>C4 (amended), for two worlds that hold the same draws and differ in the clock, and
  for two worlds of Torch that yield the same pass and differ in the memory handed out, in
  the clock and in the seeds to come.\<close>

theorem deterministic_given_generators_and_device_witness:
  "data_of (generate_RM numpy 2 1 2 False example_world)
     = data_of (generate_RM numpy 2 1 2 False (example_world\<lparr>clock := (\<lambda>i. 5), reads := 3\<rparr>))
   \<and> data_of (generate_RM numpy 2 1 2 False example_world)
     = Inr [array 1 1 [[1]], array 1 1 [[2]]]
   \<and> arrays_of (get_conv_features torch
          \<lparr>dataset = [(1::real, 7), (- 2, 3), (0, 300)], batch_size = 2, drop_last = False,
            sampler = (\<lambda>seed. if seed = 0 then [2, 0, 1] else [0, 1, 2])\<rparr>
          (\<lambda>x. [x, 1 - x]) 2 ''cpu'' example_torch_world)
     = arrays_of (get_conv_features torch
          \<lparr>dataset = [(1::real, 7), (- 2, 3), (0, 300)], batch_size = 2, drop_last = False,
            sampler = (\<lambda>seed. if seed = 0 then [2, 0, 1] else [0, 1, 2])\<rparr>
          (\<lambda>x. [x, 1 - x]) 2 ''cpu''
          (example_torch_world\<lparr>clock := (\<lambda>i. 5), junk := (\<lambda>i j. 1), junk_bytes := (\<lambda>i. 9),
             seeds := (\<lambda>k. if k = 0 then 0 else 4)\<rparr>))
   \<and> arrays_of (get_conv_features torch
          \<lparr>dataset = [(1::real, 7), (- 2, 3), (0, 300)], batch_size = 2, drop_last = False,
            sampler = (\<lambda>seed. if seed = 0 then [2, 0, 1] else [0, 1, 2])\<rparr>
          (\<lambda>x. [x, 1 - x]) 2 ''cpu'' example_torch_world)
     = Inr (array 3 2 [[False, True], [True, False], [False, True]], [44, 7, 3])"
proof -
  let ?ld = "\<lparr>dataset = [(1::real, 7), (- 2, 3), (0, 300)], batch_size = 2, drop_last = False,
            sampler = (\<lambda>seed. if seed = 0 then [2, 0, 1] else [0, 1, 2])\<rparr>"
  let ?t' = "example_torch_world\<lparr>clock := (\<lambda>i. 5), junk := (\<lambda>i j. 1), junk_bytes := (\<lambda>i. 9),
             seeds := (\<lambda>k. if k = 0 then 0 else 4)\<rparr>"
  note all = deterministic_given_generators_and_device
    [where w = example_world and w' = "example_world\<lparr>clock := (\<lambda>i. 5), reads := 3\<rparr>"
       and n_ram = 2 and nf = 1 and nc = 2 and b = False
       and ld = ?ld and model = "\<lambda>x. [x, 1 - x]" and out_shape = 2 and device = "''cpu''"
       and t = example_torch_world and t' = ?t']
  have draws: "\<forall>n<nat 2 * (nat 1 * nat (2 div 2)).
      draws example_world (used example_world + n)
        = draws (example_world\<lparr>clock := (\<lambda>i. 5), reads := 3\<rparr>)
            (used (example_world\<lparr>clock := (\<lambda>i. 5), reads := 3\<rparr>) + n)"
    by (simp add: example_world_def)
  have pass: "yielded ?ld example_torch_world = [2, 0, 1]" "yielded ?ld ?t' = [2, 0, 1]"
    by (simp_all add: yielded_def batches_def chunks.simps example_torch_world_def)
  have a: "data_of (generate_RM numpy 2 1 2 False example_world)
     = data_of (generate_RM numpy 2 1 2 False (example_world\<lparr>clock := (\<lambda>i. 5), reads := 3\<rparr>))"
    using all [THEN conjunct2, THEN conjunct2, THEN conjunct1] draws by blast
  have b: "arrays_of (get_conv_features torch ?ld (\<lambda>x. [x, 1 - x]) 2 ''cpu'' example_torch_world)
     = arrays_of (get_conv_features torch ?ld (\<lambda>x. [x, 1 - x]) 2 ''cpu'' ?t')"
    using all [THEN conjunct2, THEN conjunct2, THEN conjunct2, THEN conjunct1]
    by (simp add: pass)
  have c: "data_of (generate_RM numpy 2 1 2 False example_world)
     = Inr [array 1 1 [[1]], array 1 1 [[2]]]"
    by (simp add: example_world_def generate_RM_numpy data_of_def block_at_def normalized_def
        drawn_block_def array_def upt_conv_Cons)
  have d: "arrays_of (get_conv_features torch ?ld (\<lambda>x. [x, 1 - x]) 2 ''cpu'' example_torch_world)
     = Inr (array 3 2 [[False, True], [True, False], [False, True]], [44, 7, 3])"
    using get_conv_features_torch [of ?ld example_torch_world "\<lambda>x. [x, 1 - x]" 2 "''cpu''"]
    by (simp add: pass arrays_of_def encoded_features_def array_def upt_conv_Cons numeral_3_eq_3)
  from a b c d show ?thesis
    by (intro conjI)
qed

end
